theory Spec2Isabelle
  imports Main
begin

section \<open>The modal dialog element of bs-modal.ts\<close>

text \<open>
  The module defines one custom element, \<open>BsModalElement\<close>, and six free functions.
  The element owns two flags, \<open>isOpen\<close> and \<open>isClosed\<close>, four configuration
  properties, the element that had the focus when the modal was opened, and it acts on
  its surroundings: the class list of the document body, the focused element of the
  document, the animations of its container and the events it dispatches.

  The embedding passes all of this around as one record, \<open>world\<close>. What the browser
  does on its own (an animation coming to its end, an animation frame, a key press, a
  rendering of the element) is an input of the step function at the end of this
  section. The browser's part in each call is written out:
  \<^item> \<open>this.container\<close> is null until the element has rendered, and
    \<open>getAnimations\<close> and \<open>animate\<close> on null throw a \<open>TypeError\<close>;
  \<^item> \<open>animate\<close> throws a \<open>TypeError\<close> for a duration that is negative or not a
    number, and an animation of 0 ms is over at once: \<open>getAnimations\<close> does not
    list it, and its \<open>finished\<close> promise is fulfilled;
  \<^item> \<open>dispatchEvent\<close> runs the listeners of the event before it returns, and a
    listener may call \<open>show\<close>, \<open>hide\<close> or \<open>toggle\<close>;
  \<^item> \<open>focus\<close> is a request, which an element that is hidden, disabled or removed
    does not take.
  Two things are left to the environment: the element is connected, so that the
  listeners of \<open>connectedCallback\<close> are attached, and nothing outside the module
  assigns \<open>isOpen\<close> or \<open>isClosed\<close>.
\<close>

subsection \<open>Elements, events, animations, promises\<close>

text \<open>
  An element of the document is the modal itself, a node below it, or a node elsewhere.
  \<open>contains\<close> is \<open>this.contains(e)\<close>, which is true of the modal and of its
  descendants.
\<close>

datatype element = Modal | Inside nat | Outside nat

fun contains :: "element \<Rightarrow> bool" where
  "contains Modal = True"
| "contains (Inside n) = True"
| "contains (Outside n) = False"

record event =
  ev_type :: string
  bubbles :: bool
  cancelable :: bool

text \<open>\<open>createEvent\<close>: a custom event of the given name that bubbles and can be cancelled.\<close>

definition createEvent :: "string \<Rightarrow> event" where
  "createEvent eventName = \<lparr>ev_type = eventName, bubbles = True, cancelable = True\<rparr>"

text \<open>
  \<open>animMsec\<close> is a number of JavaScript: \<open>anim-msec="abc"\<close> makes it \<open>NaN\<close>. A
  fraction behaves as the integers of its sign do. \<open>valid_duration\<close> is what
  \<open>animate\<close> accepts.
\<close>

datatype number = Num int | NaN

definition valid_duration :: "number \<Rightarrow> bool" where
  "valid_duration m = (case m of Num n \<Rightarrow> 0 \<le> n | NaN \<Rightarrow> False)"

definition msec_of :: "number \<Rightarrow> int" where
  "msec_of m = (case m of Num n \<Rightarrow> n | NaN \<Rightarrow> 0)"

text \<open>
  The two animations differ in their key frames and easing: the entrance goes from
  opacity 0 and an offset of -20px to opacity 1 and no offset with \<open>ease-out\<close>, the exit
  goes back with \<open>ease-in\<close>. An animation is known by its handle, a number that
  \<open>animate\<close> never hands out twice.
\<close>

datatype anim_kind = Entrance | Exit

record animation =
  anim_id :: nat
  anim_kind :: anim_kind
  duration :: int

text \<open>What a call can throw, and what a promise can be rejected with.\<close>

datatype error = TypeError | RangeError

datatype err = AbortError

text \<open>
  A promise is pending, fulfilled with a value, or rejected with an error. \<open>then_p\<close> is
  \<open>p.then(f)\<close> and \<open>catch_p\<close> is \<open>p.catch(g)\<close>: each gives the promise that the call
  returns, as it ends up once \<open>p\<close> has ended up as given. A callback may act on a state
  \<open>'s\<close>; it runs only in the case that calls it.
\<close>

datatype 'a promise = Pending | Fulfilled 'a | Rejected err

definition then_p :: "'a promise \<Rightarrow> ('a \<Rightarrow> 's \<Rightarrow> 'b \<times> 's) \<Rightarrow> 's \<Rightarrow> 'b promise \<times> 's" where
  "then_p p f s =
     (case p of
        Pending \<Rightarrow> (Pending, s)
      | Fulfilled v \<Rightarrow> (let (r, s') = f v s in (Fulfilled r, s'))
      | Rejected e \<Rightarrow> (Rejected e, s))"

definition catch_p :: "'a promise \<Rightarrow> (err \<Rightarrow> 's \<Rightarrow> 'a \<times> 's) \<Rightarrow> 's \<Rightarrow> 'a promise \<times> 's" where
  "catch_p p g s =
     (case p of
        Pending \<Rightarrow> (Pending, s)
      | Fulfilled v \<Rightarrow> (Fulfilled v, s)
      | Rejected e \<Rightarrow> (let (r, s') = g e s in (Fulfilled r, s')))"

text \<open>
  \<open>resolve\<close> is the function that \<open>new Promise\<close> hands to its executor. The state it acts
  on is the new promise; resolving a promise that is not pending changes nothing.
\<close>

definition resolve :: "'a \<Rightarrow> 'a promise \<Rightarrow> unit \<times> 'a promise" where
  "resolve v cell = ((), (case cell of Pending \<Rightarrow> Fulfilled v | _ \<Rightarrow> cell))"

text \<open>
  The last statement of \<open>showAnim\<close> and of \<open>hideAnim\<close>:
  \<^verbatim>\<open>return new Promise((resolve) => {
    anim.finished.then(() => resolve(anim)).catch(() => {});
  });\<close>
  Given the handle \<open>anim\<close> and the way \<open>anim.finished\<close> ends up, the result is the
  promise at the end of the chain inside the executor, and the promise returned.
\<close>

definition showAnim_promise :: "nat \<Rightarrow> nat promise \<Rightarrow> unit promise \<times> nat promise" where
  "showAnim_promise anim finished =
     (let (p1, cell1) = then_p finished (\<lambda>_. resolve anim) Pending;
          (p2, cell2) = catch_p p1 (\<lambda>_ cell. ((), cell)) cell1
      in (p2, cell2))"

definition hideAnim_promise :: "nat \<Rightarrow> nat promise \<Rightarrow> unit promise \<times> nat promise" where
  "hideAnim_promise anim finished =
     (let (p1, cell1) = then_p finished (\<lambda>_. resolve anim) Pending;
          (p2, cell2) = catch_p p1 (\<lambda>_ cell. ((), cell)) cell1
      in (p2, cell2))"

subsection \<open>The state\<close>

text \<open>
  What can be observed from outside is recorded in \<open>trace\<close>, the latest action first.
  \<open>Unhandled\<close> is a rejected promise that nothing handles.
\<close>

datatype action =
    Dispatched event
  | AnimStarted anim_kind nat
  | AnimCanceled nat
  | AnimFinished nat
  | Unhandled nat

text \<open>The two callbacks that the module passes to \<open>then\<close>: the one of \<open>show\<close>, the one of \<open>hide\<close>.\<close>

datatype cont = OnShown | OnHidden

text \<open>What a listener of an event may do to the modal.\<close>

datatype call = DoShow | DoHide | DoToggle

text \<open>
  \<open>rendered\<close> says that \<open>this.container\<close> is there; \<open>hidden\<close> is the element's
  \<open>hidden\<close> property, which \<open>render\<close> sets; \<open>canFocus\<close> says which other elements
  take the focus when asked. \<open>anims\<close> are the animations that \<open>getAnimations\<close>
  lists, \<open>unlisted\<close> the animations of 0 ms whose end has not been delivered yet.
  \<open>listeners\<close> gives, for the name of an event, what its listeners do to the modal.
\<close>

record world =
  isOpen :: bool
  isClosed :: bool
  width :: string
  backdrop :: string
  keyboard :: string
  animMsec :: number
  prevFocusElement :: "element option"
  rendered :: bool
  hidden :: bool
  activeElement :: "element option"
  canFocus :: "element \<Rightarrow> bool"
  bodyClasses :: "string list"
  scrollTop :: nat
  anims :: "animation list"
  unlisted :: "animation list"
  nextAnim :: nat
  conts :: "(nat \<times> cont) list"
  frames :: nat
  listeners :: "string \<Rightarrow> call list"
  trace :: "action list"

text \<open>
  A new element in a document: the fields have the values of their initialisers, the
  element has not rendered, no animation runs, nothing listens, nothing has been
  dispatched.
\<close>

definition new_modal :: "element option \<Rightarrow> string list \<Rightarrow> world" where
  "new_modal focused classes =
     \<lparr>isOpen = False, isClosed = True, width = ''600px'', backdrop = ''true'',
      keyboard = ''true'', animMsec = Num 300, prevFocusElement = None,
      rendered = False, hidden = False, activeElement = focused,
      canFocus = (\<lambda>e. True), bodyClasses = classes, scrollTop = 0, anims = [],
      unlisted = [], nextAnim = 0, conts = [], frames = 0, listeners = (\<lambda>t. []),
      trace = []\<rparr>"

text \<open>
  An element written in markup: a property whose attribute is present takes the
  attribute's string, a property whose attribute is absent keeps its initialiser.
\<close>

definition from_markup :: "string option \<Rightarrow> string option \<Rightarrow> world \<Rightarrow> world" where
  "from_markup backdrop_attr keyboard_attr w =
     (let w = (case backdrop_attr of None \<Rightarrow> w | Some s \<Rightarrow> w\<lparr>backdrop := s\<rparr>)
      in (case keyboard_attr of None \<Rightarrow> w | Some s \<Rightarrow> w\<lparr>keyboard := s\<rparr>))"

subsection \<open>The free functions\<close>

text \<open>\<open>tick\<close>: the only callback the module passes is the one of \<open>show\<close>, so pending
  callbacks are counted.\<close>

definition tick :: "world \<Rightarrow> world" where
  "tick w = w\<lparr>frames := Suc (frames w)\<rparr>"

text \<open>\<open>getFocusElement\<close>: \<open>document.activeElement || undefined\<close>.\<close>

definition getFocusElement :: "world \<Rightarrow> element option" where
  "getFocusElement w = activeElement w"

text \<open>
  \<open>dispatchEvent\<close> records the event and runs its listeners in turn. \<open>re\<close> is the
  way a listener's call gets into the modal; what such a call returns or throws stays
  with the listener.
\<close>

definition dispatchEvent :: "(call \<Rightarrow> world \<Rightarrow> world) \<Rightarrow> event \<Rightarrow> world \<Rightarrow> world" where
  "dispatchEvent re e w =
     fold re (listeners w (ev_type e)) (w\<lparr>trace := Dispatched e # trace w\<rparr>)"

text \<open>\<open>classList.add\<close> and \<open>classList.remove\<close> on an ordered set of tokens.\<close>

definition classList_add :: "string \<Rightarrow> string list \<Rightarrow> string list" where
  "classList_add c cs = (if c \<in> set cs then cs else cs @ [c])"

definition classList_remove :: "string \<Rightarrow> string list \<Rightarrow> string list" where
  "classList_remove c cs = filter (\<lambda>d. d \<noteq> c) cs"

text \<open>
  Whether an element takes the focus when asked: the modal (which has a \<open>tabindex\<close>)
  and the nodes below it do not while the modal is hidden.
\<close>

definition takes_focus :: "world \<Rightarrow> element \<Rightarrow> bool" where
  "takes_focus w e = ((contains e \<longrightarrow> \<not> hidden w) \<and> (e \<noteq> Modal \<longrightarrow> canFocus w e))"

text \<open>
  \<open>this.focus({preventScroll: true})\<close> inside the listener for \<open>focusin\<close>: the
  \<open>focusin\<close> that follows has the modal as its target, which the modal contains, so
  the listener does nothing then.
\<close>

definition focus_self :: "world \<Rightarrow> world" where
  "focus_self w = (if takes_focus w Modal then w\<lparr>activeElement := Some Modal\<rparr> else w)"

text \<open>\<open>_focusinHandler\<close>, the listener for \<open>focusin\<close> on the document.\<close>

definition focusinHandler :: "element option \<Rightarrow> world \<Rightarrow> world" where
  "focusinHandler target w =
     (if isOpen w \<and> target \<noteq> None \<and> \<not> contains (the target)
      then focus_self w else w)"

text \<open>\<open>e.focus({preventScroll: true})\<close>: if \<open>e\<close> takes the focus, it becomes the
  active element and \<open>focusin\<close> is fired at it.\<close>

definition focus_el :: "element \<Rightarrow> world \<Rightarrow> world" where
  "focus_el e w =
     (if takes_focus w e then focusinHandler (Some e) (w\<lparr>activeElement := Some e\<rparr>)
      else w)"

text \<open>The callback of \<open>showAnim(...).then\<close> in \<open>show\<close>.\<close>

definition shown_cont :: "(call \<Rightarrow> world \<Rightarrow> world) \<Rightarrow> world \<Rightarrow> world" where
  "shown_cont re w = dispatchEvent re (createEvent ''shown'') w"

text \<open>The callback of \<open>hideAnim(...).then\<close> in \<open>hide\<close>.\<close>

definition hidden_cont :: "(call \<Rightarrow> world \<Rightarrow> world) \<Rightarrow> world \<Rightarrow> world" where
  "hidden_cont re w =
     (let w = w\<lparr>isClosed := True\<rparr>;
          w = (case prevFocusElement w of None \<Rightarrow> w | Some e \<Rightarrow> focus_el e w)
      in dispatchEvent re (createEvent ''hidden'') w)"

text \<open>The callbacks registered on the promise of the animation \<open>h\<close>.\<close>

definition run_conts :: "(call \<Rightarrow> world \<Rightarrow> world) \<Rightarrow> nat \<Rightarrow> world \<Rightarrow> world" where
  "run_conts re h w =
     (case map_of (conts w) h of
        None \<Rightarrow> w
      | Some OnShown \<Rightarrow> shown_cont re w
      | Some OnHidden \<Rightarrow> hidden_cont re w)"

text \<open>
  \<open>settle re a finished w\<close>: \<open>a.finished\<close> has ended up as \<open>finished\<close>. The promises
  built on it follow; a rejected promise without a handler is recorded, and the
  callbacks registered on the returned promise run if it is fulfilled. The promise that
  \<open>then\<close> returns in \<open>show\<close> and \<open>hide\<close> has no handler of its own.
\<close>

definition settle :: "(call \<Rightarrow> world \<Rightarrow> world) \<Rightarrow> animation \<Rightarrow> nat promise \<Rightarrow> world \<Rightarrow> world" where
  "settle re a finished w =
     (let (chain, returned) =
            (case anim_kind a of
               Entrance \<Rightarrow> showAnim_promise (anim_id a) finished
             | Exit \<Rightarrow> hideAnim_promise (anim_id a) finished);
          w = (case chain of
                 Rejected e \<Rightarrow> w\<lparr>trace := Unhandled (anim_id a) # trace w\<rparr>
               | _ \<Rightarrow> w)
      in (case returned of
            Pending \<Rightarrow> w
          | Fulfilled h \<Rightarrow> run_conts re h w
          | Rejected e \<Rightarrow> w\<lparr>trace := Unhandled (anim_id a) # trace w\<rparr>))"

text \<open>\<open>anim.cancel()\<close>: the animation stops being one of the element's animations and
  its \<open>finished\<close> promise is rejected with an \<open>AbortError\<close>.\<close>

definition cancel :: "(call \<Rightarrow> world \<Rightarrow> world) \<Rightarrow> animation \<Rightarrow> world \<Rightarrow> world" where
  "cancel re a w =
     settle re a (Rejected AbortError)
       (w\<lparr>anims := filter (\<lambda>b. anim_id b \<noteq> anim_id a) (anims w),
          trace := AnimCanceled (anim_id a) # trace w\<rparr>)"

text \<open>\<open>cancelAnims\<close>: \<open>ele.getAnimations().forEach((anim) => anim.cancel())\<close>, which
  throws when \<open>ele\<close> is null.\<close>

definition cancelAnims :: "(call \<Rightarrow> world \<Rightarrow> world) \<Rightarrow> world \<Rightarrow> (error + unit) \<times> world" where
  "cancelAnims re w =
     (if rendered w then (Inr (), fold (cancel re) (anims w) w) else (Inl TypeError, w))"

text \<open>
  \<open>ele.animate(keyframes, options)\<close> on the container: it throws when the container
  is null or the duration is not valid; an animation of 0 ms is started and over, and
  is not listed.
\<close>

definition animate :: "anim_kind \<Rightarrow> number \<Rightarrow> world \<Rightarrow> (error + nat) \<times> world" where
  "animate k msec w =
     (if \<not> rendered w \<or> \<not> valid_duration msec then (Inl TypeError, w)
      else
        let a = \<lparr>anim_id = nextAnim w, anim_kind = k, duration = msec_of msec\<rparr>;
            w = w\<lparr>nextAnim := Suc (nextAnim w), trace := AnimStarted k (nextAnim w) # trace w\<rparr>
        in (Inr (anim_id a),
            if msec_of msec = 0 then w\<lparr>unlisted := unlisted w @ [a]\<rparr>
            else w\<lparr>anims := anims w @ [a]\<rparr>))"

text \<open>
  \<open>showAnim\<close> and \<open>hideAnim\<close> start an animation of the container and return a promise,
  which is known here by the handle of the animation it belongs to.
\<close>

definition showAnim :: "number \<Rightarrow> world \<Rightarrow> (error + nat) \<times> world" where
  "showAnim msec w = animate Entrance msec w"

definition hideAnim :: "number \<Rightarrow> world \<Rightarrow> (error + nat) \<times> world" where
  "hideAnim msec w = animate Exit msec w"

text \<open>\<open>promise.then(callback)\<close> on a promise returned by \<open>showAnim\<close> or \<open>hideAnim\<close>.\<close>

definition then_cont :: "nat \<Rightarrow> cont \<Rightarrow> world \<Rightarrow> world" where
  "then_cont h k w = w\<lparr>conts := (h, k) # conts w\<rparr>"

subsection \<open>The methods of the element\<close>

text \<open>
  A method returns its value or the error it throws, and the state it leaves. What
  was written before a throw stays written.
\<close>

definition show_modal :: "(call \<Rightarrow> world \<Rightarrow> world) \<Rightarrow> world \<Rightarrow> (error + bool) \<times> world" where
  "show_modal re w =
     (if isOpen w then (Inr False, w)
      else
        let w = w\<lparr>prevFocusElement := getFocusElement w\<rparr>;
            w = w\<lparr>isOpen := True\<rparr>;
            w = w\<lparr>isClosed := False\<rparr>;
            w = w\<lparr>bodyClasses := classList_add ''modal-open'' (bodyClasses w)\<rparr>
        in (case cancelAnims re w of
              (Inl e, w) \<Rightarrow> (Inl e, w)
            | (Inr u, w) \<Rightarrow>
                let w = dispatchEvent re (createEvent ''show'') w
                in (case showAnim (animMsec w) w of
                      (Inl e, w) \<Rightarrow> (Inl e, w)
                    | (Inr p, w) \<Rightarrow>
                        let w = then_cont p OnShown w;
                            w = tick w
                        in (Inr True, w))))"

definition hide :: "(call \<Rightarrow> world \<Rightarrow> world) \<Rightarrow> world \<Rightarrow> (error + bool) \<times> world" where
  "hide re w =
     (if \<not> isOpen w then (Inr False, w)
      else
        let w = w\<lparr>bodyClasses := classList_remove ''modal-open'' (bodyClasses w)\<rparr>;
            w = w\<lparr>isOpen := False\<rparr>
        in (case cancelAnims re w of
              (Inl e, w) \<Rightarrow> (Inl e, w)
            | (Inr u, w) \<Rightarrow>
                let w = dispatchEvent re (createEvent ''hide'') w
                in (case hideAnim (animMsec w) w of
                      (Inl e, w) \<Rightarrow> (Inl e, w)
                    | (Inr p, w) \<Rightarrow>
                        let w = then_cont p OnHidden w
                        in (Inr True, w))))"

definition toggle :: "(call \<Rightarrow> world \<Rightarrow> world) \<Rightarrow> world \<Rightarrow> (error + bool) \<times> world" where
  "toggle re w = (if isOpen w then hide re w else show_modal re w)"

text \<open>
  A call from a listener, with room on the stack for \<open>depth\<close> calls nested in one
  another: where the room is used up the call throws a \<open>RangeError\<close>.
\<close>

primrec invoke :: "nat \<Rightarrow> call \<Rightarrow> world \<Rightarrow> (error + bool) \<times> world" where
  "invoke 0 c w = (Inl RangeError, w)"
| "invoke (Suc depth) c w =
     (case c of
        DoShow \<Rightarrow> show_modal (\<lambda>c' w'. snd (invoke depth c' w')) w
      | DoHide \<Rightarrow> hide (\<lambda>c' w'. snd (invoke depth c' w')) w
      | DoToggle \<Rightarrow> toggle (\<lambda>c' w'. snd (invoke depth c' w')) w)"

definition reenter :: "nat \<Rightarrow> call \<Rightarrow> world \<Rightarrow> world" where
  "reenter depth c w = snd (invoke depth c w)"

text \<open>\<open>_clickHandler\<close>; the argument says whether the target of the click matches
  \<open>[data-dismiss='modal']\<close>.\<close>

definition clickHandler :: "(call \<Rightarrow> world \<Rightarrow> world) \<Rightarrow> bool \<Rightarrow> world \<Rightarrow> world" where
  "clickHandler re target_matches w = (if target_matches then snd (hide re w) else w)"

definition clickBackdropHandler :: "(call \<Rightarrow> world \<Rightarrow> world) \<Rightarrow> world \<Rightarrow> world" where
  "clickBackdropHandler re w = (if backdrop w = ''true'' then snd (hide re w) else w)"

text \<open>\<open>_keyHandler\<close>; the argument is \<open>event.key\<close>.\<close>

definition keyHandler :: "(call \<Rightarrow> world \<Rightarrow> world) \<Rightarrow> string \<Rightarrow> world \<Rightarrow> world" where
  "keyHandler re key w =
     (if keyboard w = ''true'' \<and> (key = ''Escape'' \<or> key = ''Esc'')
      then snd (hide re w) else w)"

text \<open>
  \<open>render\<close>: \<open>this.hidden = this.isClosed\<close>, and the template, which has the
  container. An element that becomes hidden loses the focus if it or a node below it
  has it.
\<close>

definition render :: "world \<Rightarrow> world" where
  "render w =
     (let w = w\<lparr>hidden := isClosed w\<rparr>;
          w = w\<lparr>rendered := True\<rparr>
      in if hidden w \<and> activeElement w \<noteq> None \<and> contains (the (activeElement w))
         then w\<lparr>activeElement := None\<rparr> else w)"

subsection \<open>What the browser does\<close>

text \<open>The callback that \<open>show\<close> hands to \<open>tick\<close>.\<close>

definition frame_callback :: "world \<Rightarrow> world" where
  "frame_callback w = focus_el Modal (w\<lparr>scrollTop := 0\<rparr>)"

text \<open>An animation frame runs the callbacks that are pending.\<close>

definition animation_frame :: "world \<Rightarrow> world" where
  "animation_frame w = (frame_callback ^^ frames w) (w\<lparr>frames := 0\<rparr>)"

text \<open>
  The end of an animation is delivered: a listed animation has run to its end (it has
  no fill, so it is no longer listed), an unlisted one was over from the start; the
  \<open>finished\<close> promise is fulfilled with the animation.
\<close>

definition finish :: "(call \<Rightarrow> world \<Rightarrow> world) \<Rightarrow> animation \<Rightarrow> world \<Rightarrow> world" where
  "finish re a w =
     settle re a (Fulfilled (anim_id a))
       (w\<lparr>anims := filter (\<lambda>b. anim_id b \<noteq> anim_id a) (anims w),
          unlisted := filter (\<lambda>b. anim_id b \<noteq> anim_id a) (unlisted w),
          trace := AnimFinished (anim_id a) # trace w\<rparr>)"

datatype input =
    CallShow
  | CallHide
  | CallToggle
  | Click bool
  | ClickBackdrop
  | KeyDown string
  | FocusMoves element
  | Frame
  | Finish nat
  | Render
  | SetWidth string
  | SetBackdrop string
  | SetKeyboard string
  | SetAnimMsec number
  | SetCanFocus element bool
  | AddListener string call

text \<open>
  One input, with room on the stack for \<open>depth\<close> nested calls from listeners. Only an
  animation whose end is due can finish. What a call throws goes to its caller or is
  reported; the state stays as the call left it.
\<close>

fun step :: "nat \<Rightarrow> input \<Rightarrow> world \<Rightarrow> world option" where
  "step depth CallShow w = Some (snd (show_modal (reenter depth) w))"
| "step depth CallHide w = Some (snd (hide (reenter depth) w))"
| "step depth CallToggle w = Some (snd (toggle (reenter depth) w))"
| "step depth (Click m) w = Some (clickHandler (reenter depth) m w)"
| "step depth ClickBackdrop w = Some (clickBackdropHandler (reenter depth) w)"
| "step depth (KeyDown key) w = Some (keyHandler (reenter depth) key w)"
| "step depth (FocusMoves e) w = Some (focus_el e w)"
| "step depth Frame w = Some (animation_frame w)"
| "step depth (Finish h) w =
     (case find (\<lambda>a. anim_id a = h) (anims w @ unlisted w) of
        None \<Rightarrow> None
      | Some a \<Rightarrow> Some (finish (reenter depth) a w))"
| "step depth Render w = Some (render w)"
| "step depth (SetWidth s) w = Some (w\<lparr>width := s\<rparr>)"
| "step depth (SetBackdrop s) w = Some (w\<lparr>backdrop := s\<rparr>)"
| "step depth (SetKeyboard s) w = Some (w\<lparr>keyboard := s\<rparr>)"
| "step depth (SetAnimMsec m) w = Some (w\<lparr>animMsec := m\<rparr>)"
| "step depth (SetCanFocus e b) w = Some (w\<lparr>canFocus := (canFocus w)(e := b)\<rparr>)"
| "step depth (AddListener t c) w =
     Some (w\<lparr>listeners := (listeners w)(t := listeners w t @ [c])\<rparr>)"

text \<open>
  The states that a new element can get into by inputs that are allowed. With
  \<open>quiet_input\<close> no listener calls into the modal; with \<open>steady_input\<close>, moreover,
  \<open>animMsec\<close> is never 0.
\<close>

inductive reachable :: "(input \<Rightarrow> bool) \<Rightarrow> world \<Rightarrow> bool" for allowed where
  start: "reachable allowed (new_modal focused classes)"
| next_step: "reachable allowed w \<Longrightarrow> allowed i \<Longrightarrow> step depth i w = Some w'
              \<Longrightarrow> reachable allowed w'"

definition any_input :: "input \<Rightarrow> bool" where
  "any_input i = True"

definition quiet_input :: "input \<Rightarrow> bool" where
  "quiet_input i = (case i of AddListener t c \<Rightarrow> False | _ \<Rightarrow> True)"

definition steady_input :: "input \<Rightarrow> bool" where
  "steady_input i =
     (case i of AddListener t c \<Rightarrow> False | SetAnimMsec m \<Rightarrow> m \<noteq> Num 0 | _ \<Rightarrow> True)"

text \<open>No listener calls into the modal.\<close>

definition quiet :: "world \<Rightarrow> bool" where
  "quiet w \<longleftrightarrow> listeners w = (\<lambda>t. [])"

subsection \<open>Properties of states and traces\<close>

text \<open>
  \<open>show\<close> registers its callback on the promise of an entrance animation, \<open>hide\<close>
  on the promise of an exit animation; \<open>show\<close> announces the former with the event
  \<open>show\<close>, \<open>hide\<close> the latter with \<open>hide\<close>.
\<close>

definition cont_of :: "anim_kind \<Rightarrow> cont" where
  "cont_of k = (case k of Entrance \<Rightarrow> OnShown | Exit \<Rightarrow> OnHidden)"

definition start_event :: "anim_kind \<Rightarrow> string" where
  "start_event k = (case k of Entrance \<Rightarrow> ''show'' | Exit \<Rightarrow> ''hide'')"

text \<open>
  A trace is \<open>announced\<close> when the start of every animation comes directly after the
  event of its kind (the trace has the latest action first).
\<close>

fun announced :: "action list \<Rightarrow> bool" where
  "announced [] = True"
| "announced (AnimStarted k h # rest) =
     ((case rest of Dispatched e # _ \<Rightarrow> e = createEvent (start_event k) | _ \<Rightarrow> False)
      \<and> announced rest)"
| "announced (_ # rest) = announced rest"

text \<open>
  A trace is \<open>completed\<close> when every \<open>shown\<close> comes directly after the end of an
  entrance animation that was started before, and every \<open>hidden\<close> directly after
  the end of such an exit animation.
\<close>

fun after_finish :: "anim_kind \<Rightarrow> action list \<Rightarrow> bool" where
  "after_finish k (AnimFinished h # rest) = (AnimStarted k h \<in> set rest)"
| "after_finish k _ = False"

fun completed :: "action list \<Rightarrow> bool" where
  "completed [] = True"
| "completed (Dispatched e # rest) =
     ((e = createEvent ''shown'' \<longrightarrow> after_finish Entrance rest)
      \<and> (e = createEvent ''hidden'' \<longrightarrow> after_finish Exit rest)
      \<and> completed rest)"
| "completed (_ # rest) = completed rest"

fun is_unhandled :: "action \<Rightarrow> bool" where
  "is_unhandled (Unhandled h) = True"
| "is_unhandled _ = False"

text \<open>
  What holds in every state reached without a listener calling into the modal: at most
  one animation is listed, and none before the element has rendered; a listed and an
  unlisted animation have different handles; an animation whose end is due has a
  handle below the next one, the callback of its kind waits on its promise, it has
  been started and has neither been cancelled nor finished; no animation has been both
  cancelled and finished; no rejection went unhandled; the trace is announced and
  completed.
\<close>

definition modal_inv :: "world \<Rightarrow> bool" where
  "modal_inv w \<longleftrightarrow>
     quiet w
     \<and> length (anims w) \<le> 1
     \<and> (\<not> rendered w \<longrightarrow> anims w = [] \<and> unlisted w = [])
     \<and> (\<forall>a \<in> set (anims w). \<forall>b \<in> set (unlisted w). anim_id a \<noteq> anim_id b)
     \<and> (\<forall>a \<in> set (anims w) \<union> set (unlisted w).
          anim_id a < nextAnim w
          \<and> map_of (conts w) (anim_id a) = Some (cont_of (anim_kind a))
          \<and> AnimStarted (anim_kind a) (anim_id a) \<in> set (trace w)
          \<and> AnimCanceled (anim_id a) \<notin> set (trace w)
          \<and> AnimFinished (anim_id a) \<notin> set (trace w))
     \<and> (\<forall>h. AnimCanceled h \<in> set (trace w) \<or> AnimFinished h \<in> set (trace w)
            \<longrightarrow> h < nextAnim w)
     \<and> (\<forall>h. \<not> (AnimCanceled h \<in> set (trace w) \<and> AnimFinished h \<in> set (trace w)))
     \<and> list_all (\<lambda>x. \<not> is_unhandled x) (trace w)
     \<and> announced (trace w)
     \<and> completed (trace w)"


subsection \<open>Properties of inputs\<close>



subsection \<open>States used as examples\<close>

text \<open>A new element after its first rendering.\<close>

definition ready_modal :: "element option \<Rightarrow> string list \<Rightarrow> world" where
  "ready_modal focused classes = render (new_modal focused classes)"

text \<open>The state after \<open>show\<close>, after \<open>show\<close> and \<open>hide\<close> (the exit animation runs), and
  after the end of that exit animation.\<close>

definition open_state :: world where
  "open_state = snd (show_modal (reenter 0) (ready_modal None []))"

definition closing_state :: world where
  "closing_state = snd (hide (reenter 0) open_state)"

definition closed_again :: world where
  "closed_again = finish (reenter 0) \<lparr>anim_id = 1, anim_kind = Exit, duration = 300\<rparr> closing_state"

text \<open>A rendered element with \<open>anim-msec="abc"\<close>, closed and open.\<close>

definition nan_modal :: world where
  "nan_modal = (ready_modal None [])\<lparr>animMsec := NaN\<rparr>"

definition open_nan :: world where
  "open_nan = open_state\<lparr>animMsec := NaN\<rparr>"

text \<open>
  With \<open>anim-msec="0"\<close>: after \<open>show\<close> and \<open>hide\<close>; after \<open>show\<close>, \<open>hide\<close> and
  \<open>show\<close>; and then after the end of the exit animation has been delivered.
\<close>

definition zero_closing :: world where
  "zero_closing =
     snd (hide (reenter 0) (snd (show_modal (reenter 0)
       ((ready_modal None [])\<lparr>animMsec := Num 0\<rparr>))))"



text \<open>
  With a listener of \<open>hide\<close> that calls \<open>show\<close>: after \<open>show\<close> and \<open>hide\<close>, and
  then after the end of the exit animation. The stack has room for the one nested
  call; more room gives the same states.
\<close>

definition reopening :: world where
  "reopening =
     snd (hide (reenter (Suc 0)) (snd (show_modal (reenter (Suc 0))
       ((ready_modal None [])\<lparr>listeners := (\<lambda>t. [])(''hide'' := [DoShow])\<rparr>))))"




text \<open>\<open>hide\<close> called right after \<open>show\<close>.\<close>

definition show_then_hide :: "(call \<Rightarrow> world \<Rightarrow> world) \<Rightarrow> world \<Rightarrow> world" where
  "show_then_hide re w = snd (hide re (snd (show_modal re w)))"

section \<open>Auxiliary facts\<close>

lemma createEvent_eq [simp]: "createEvent a = createEvent b \<longleftrightarrow> a = b"
  by (simp add: createEvent_def)

lemma showAnim_promise_simps [simp]:
  "showAnim_promise h Pending = (Pending, Pending)"
  "showAnim_promise h (Fulfilled v) = (Fulfilled (), Fulfilled h)"
  "showAnim_promise h (Rejected e) = (Fulfilled (), Pending)"
  by (simp_all add: showAnim_promise_def then_p_def catch_p_def resolve_def)

lemma hideAnim_promise_simps [simp]:
  "hideAnim_promise h Pending = (Pending, Pending)"
  "hideAnim_promise h (Fulfilled v) = (Fulfilled (), Fulfilled h)"
  "hideAnim_promise h (Rejected e) = (Fulfilled (), Pending)"
  by (simp_all add: hideAnim_promise_def then_p_def catch_p_def resolve_def)

lemma settle_rejected [simp]: "settle re a (Rejected e) w = w"
  by (cases "anim_kind a") (simp_all add: settle_def)

lemma settle_fulfilled [simp]: "settle re a (Fulfilled v) w = run_conts re (anim_id a) w"
  by (cases "anim_kind a") (simp_all add: settle_def)

lemma cancel_eq:
  "cancel re a w = w\<lparr>anims := filter (\<lambda>b. anim_id b \<noteq> anim_id a) (anims w),
                     trace := AnimCanceled (anim_id a) # trace w\<rparr>"
  by (simp add: cancel_def)

lemma fold_cancel:
  "fold (cancel re) xs w =
     w\<lparr>anims := filter (\<lambda>b. anim_id b \<notin> anim_id ` set xs) (anims w),
       trace := map (\<lambda>a. AnimCanceled (anim_id a)) (rev xs) @ trace w\<rparr>"
proof (induction xs arbitrary: w)
  case Nil
  show ?case by simp
next
  case (Cons x xs)
  have "fold (cancel re) (x # xs) w = fold (cancel re) xs (cancel re x w)"
    by simp
  also have "\<dots> = (cancel re x w)\<lparr>anims := filter (\<lambda>b. anim_id b \<notin> anim_id ` set xs) (anims (cancel re x w)),
       trace := map (\<lambda>a. AnimCanceled (anim_id a)) (rev xs) @ trace (cancel re x w)\<rparr>"
    by (rule Cons.IH)
  also have "\<dots> = w\<lparr>anims := filter (\<lambda>b. anim_id b \<notin> anim_id ` set (x # xs)) (anims w),
       trace := map (\<lambda>a. AnimCanceled (anim_id a)) (rev (x # xs)) @ trace w\<rparr>"
    by (simp add: cancel_eq conj_commute)
  finally show ?case .
qed

lemma cancelAnims_eq:
  "cancelAnims re w =
     (if rendered w
      then (Inr (), w\<lparr>anims := [],
                     trace := map (\<lambda>a. AnimCanceled (anim_id a)) (rev (anims w)) @ trace w\<rparr>)
      else (Inl TypeError, w))"
  by (simp add: cancelAnims_def fold_cancel)

lemma ev_type_createEvent [simp]: "ev_type (createEvent n) = n"
  by (simp add: createEvent_def)

lemma dispatchEvent_nil:
  "listeners w (ev_type e) = [] \<Longrightarrow>
   dispatchEvent re e w = w\<lparr>trace := Dispatched e # trace w\<rparr>"
  by (simp add: dispatchEvent_def)

lemma dispatchEvent_quiet:
  "quiet w \<Longrightarrow> dispatchEvent re e w = w\<lparr>trace := Dispatched e # trace w\<rparr>"
  by (simp add: dispatchEvent_def quiet_def)

lemma quiet_listeners: "quiet w \<Longrightarrow> listeners w t = []"
  by (simp add: quiet_def)

lemma show_modal_refused: "isOpen w \<Longrightarrow> show_modal re w = (Inr False, w)"
  by (simp add: show_modal_def)

lemma hide_refused: "\<not> isOpen w \<Longrightarrow> hide re w = (Inr False, w)"
  by (simp add: hide_def)

lemma show_modal_unrendered:
  "\<not> isOpen w \<Longrightarrow> \<not> rendered w \<Longrightarrow> show_modal re w =
     (Inl TypeError,
      w\<lparr>isOpen := True, isClosed := False, prevFocusElement := activeElement w,
        bodyClasses := classList_add ''modal-open'' (bodyClasses w)\<rparr>)"
  by (simp add: show_modal_def Let_def cancelAnims_eq getFocusElement_def)

lemma show_modal_invalid:
  "\<not> isOpen w \<Longrightarrow> listeners w ''show'' = [] \<Longrightarrow> rendered w \<Longrightarrow> \<not> valid_duration (animMsec w) \<Longrightarrow>
   show_modal re w =
     (Inl TypeError,
      w\<lparr>isOpen := True, isClosed := False, prevFocusElement := activeElement w,
        bodyClasses := classList_add ''modal-open'' (bodyClasses w),
        anims := [],
        trace := Dispatched (createEvent ''show'')
                 # map (\<lambda>a. AnimCanceled (anim_id a)) (rev (anims w)) @ trace w\<rparr>)"
  by (simp add: show_modal_def Let_def cancelAnims_eq getFocusElement_def
      dispatchEvent_nil showAnim_def animate_def)

lemma show_modal_zero:
  "\<not> isOpen w \<Longrightarrow> listeners w ''show'' = [] \<Longrightarrow> rendered w \<Longrightarrow> animMsec w = Num 0 \<Longrightarrow>
   show_modal re w =
     (Inr True,
      w\<lparr>isOpen := True, isClosed := False, prevFocusElement := activeElement w,
        bodyClasses := classList_add ''modal-open'' (bodyClasses w),
        anims := [],
        unlisted := unlisted w @ [\<lparr>anim_id = nextAnim w, anim_kind = Entrance, duration = 0\<rparr>],
        nextAnim := Suc (nextAnim w),
        conts := (nextAnim w, OnShown) # conts w,
        frames := Suc (frames w),
        trace := AnimStarted Entrance (nextAnim w) # Dispatched (createEvent ''show'')
                 # map (\<lambda>a. AnimCanceled (anim_id a)) (rev (anims w)) @ trace w\<rparr>)"
  by (simp add: show_modal_def Let_def cancelAnims_eq getFocusElement_def
      dispatchEvent_nil showAnim_def animate_def then_cont_def tick_def
      valid_duration_def msec_of_def)

lemma show_modal_accepted:
  "\<not> isOpen w \<Longrightarrow> listeners w ''show'' = [] \<Longrightarrow> rendered w \<Longrightarrow> valid_duration (animMsec w) \<Longrightarrow>
   msec_of (animMsec w) \<noteq> 0 \<Longrightarrow>
   show_modal re w =
     (Inr True,
      w\<lparr>isOpen := True, isClosed := False, prevFocusElement := activeElement w,
        bodyClasses := classList_add ''modal-open'' (bodyClasses w),
        anims := [\<lparr>anim_id = nextAnim w, anim_kind = Entrance,
                   duration = msec_of (animMsec w)\<rparr>],
        nextAnim := Suc (nextAnim w),
        conts := (nextAnim w, OnShown) # conts w,
        frames := Suc (frames w),
        trace := AnimStarted Entrance (nextAnim w) # Dispatched (createEvent ''show'')
                 # map (\<lambda>a. AnimCanceled (anim_id a)) (rev (anims w)) @ trace w\<rparr>)"
  by (simp add: show_modal_def Let_def cancelAnims_eq getFocusElement_def
      dispatchEvent_nil showAnim_def animate_def then_cont_def tick_def)

lemma hide_unrendered:
  "isOpen w \<Longrightarrow> \<not> rendered w \<Longrightarrow> hide re w =
     (Inl TypeError,
      w\<lparr>isOpen := False,
        bodyClasses := classList_remove ''modal-open'' (bodyClasses w)\<rparr>)"
  by (simp add: hide_def Let_def cancelAnims_eq)

lemma hide_invalid:
  "isOpen w \<Longrightarrow> listeners w ''hide'' = [] \<Longrightarrow> rendered w \<Longrightarrow> \<not> valid_duration (animMsec w) \<Longrightarrow>
   hide re w =
     (Inl TypeError,
      w\<lparr>isOpen := False,
        bodyClasses := classList_remove ''modal-open'' (bodyClasses w),
        anims := [],
        trace := Dispatched (createEvent ''hide'')
                 # map (\<lambda>a. AnimCanceled (anim_id a)) (rev (anims w)) @ trace w\<rparr>)"
  by (simp add: hide_def Let_def cancelAnims_eq dispatchEvent_nil hideAnim_def
      animate_def)

lemma hide_zero:
  "isOpen w \<Longrightarrow> listeners w ''hide'' = [] \<Longrightarrow> rendered w \<Longrightarrow> animMsec w = Num 0 \<Longrightarrow>
   hide re w =
     (Inr True,
      w\<lparr>isOpen := False,
        bodyClasses := classList_remove ''modal-open'' (bodyClasses w),
        anims := [],
        unlisted := unlisted w @ [\<lparr>anim_id = nextAnim w, anim_kind = Exit, duration = 0\<rparr>],
        nextAnim := Suc (nextAnim w),
        conts := (nextAnim w, OnHidden) # conts w,
        trace := AnimStarted Exit (nextAnim w) # Dispatched (createEvent ''hide'')
                 # map (\<lambda>a. AnimCanceled (anim_id a)) (rev (anims w)) @ trace w\<rparr>)"
  by (simp add: hide_def Let_def cancelAnims_eq dispatchEvent_nil hideAnim_def
      animate_def then_cont_def valid_duration_def msec_of_def)

lemma hide_accepted:
  "isOpen w \<Longrightarrow> listeners w ''hide'' = [] \<Longrightarrow> rendered w \<Longrightarrow> valid_duration (animMsec w) \<Longrightarrow>
   msec_of (animMsec w) \<noteq> 0 \<Longrightarrow>
   hide re w =
     (Inr True,
      w\<lparr>isOpen := False,
        bodyClasses := classList_remove ''modal-open'' (bodyClasses w),
        anims := [\<lparr>anim_id = nextAnim w, anim_kind = Exit,
                   duration = msec_of (animMsec w)\<rparr>],
        nextAnim := Suc (nextAnim w),
        conts := (nextAnim w, OnHidden) # conts w,
        trace := AnimStarted Exit (nextAnim w) # Dispatched (createEvent ''hide'')
                 # map (\<lambda>a. AnimCanceled (anim_id a)) (rev (anims w)) @ trace w\<rparr>)"
  by (simp add: hide_def Let_def cancelAnims_eq dispatchEvent_nil hideAnim_def
      animate_def then_cont_def)

lemma duration_cases:
  obtains "\<not> valid_duration m" | "m = Num 0" | "valid_duration m" and "msec_of m \<noteq> 0"
  by (cases m) (auto simp: valid_duration_def msec_of_def)

lemma anims_cases:
  assumes "length (anims w) \<le> 1"
  obtains "anims w = []" | a where "anims w = [a]"
  using assms by (cases "anims w") (auto simp: Suc_le_eq)

lemma inv_new_modal: "modal_inv (new_modal focused classes)"
  by (simp add: modal_inv_def new_modal_def quiet_def)

lemma inv_show_modal:
  assumes "modal_inv w"
  shows "modal_inv (snd (show_modal re w))"
proof (cases "isOpen w")
  case True
  then show ?thesis using assms by (simp add: show_modal_refused)
next
  case False
  from assms have q: "listeners w ''show'' = []" and len: "length (anims w) \<le> 1"
    by (simp_all add: modal_inv_def quiet_def)
  show ?thesis
  proof (cases "rendered w")
    case nr: False
    with assms False show ?thesis
      by (simp add: show_modal_unrendered modal_inv_def quiet_def image_iff)
  next
    case r: True
    show ?thesis
    proof (cases "animMsec w" rule: duration_cases)
      case 1
      from len show ?thesis
      proof (cases rule: anims_cases)
        case 1
        with assms False q r \<open>\<not> valid_duration (animMsec w)\<close> show ?thesis
          by (auto simp: show_modal_invalid modal_inv_def quiet_def image_iff)
      next
        case (2 a)
        with assms False q r \<open>\<not> valid_duration (animMsec w)\<close> show ?thesis
          by (auto simp: show_modal_invalid modal_inv_def quiet_def image_iff)
      qed
    next
      case 2
      from len show ?thesis
      proof (cases rule: anims_cases)
        case 1
        with assms False q r \<open>animMsec w = Num 0\<close> show ?thesis
          by (auto simp: show_modal_zero modal_inv_def quiet_def image_iff cont_of_def start_event_def
              less_Suc_eq)
      next
        case (2 a)
        with assms False q r \<open>animMsec w = Num 0\<close> show ?thesis
          by (auto simp: show_modal_zero modal_inv_def quiet_def image_iff cont_of_def start_event_def
              less_Suc_eq)
      qed
    next
      case 3
      from len show ?thesis
      proof (cases rule: anims_cases)
        case 1
        with assms False q r 3 show ?thesis
          by (auto simp: show_modal_accepted modal_inv_def quiet_def image_iff cont_of_def
              start_event_def less_Suc_eq)
      next
        case (2 a)
        with assms False q r 3 show ?thesis
          by (auto simp: show_modal_accepted modal_inv_def quiet_def image_iff cont_of_def
              start_event_def less_Suc_eq)
      qed
    qed
  qed
qed

lemma inv_hide:
  assumes "modal_inv w"
  shows "modal_inv (snd (hide re w))"
proof (cases "isOpen w")
  case False
  then show ?thesis using assms by (simp add: hide_refused)
next
  case True
  from assms have q: "listeners w ''hide'' = []" and len: "length (anims w) \<le> 1"
    by (simp_all add: modal_inv_def quiet_def)
  show ?thesis
  proof (cases "rendered w")
    case nr: False
    with assms True show ?thesis
      by (simp add: hide_unrendered modal_inv_def quiet_def image_iff)
  next
    case r: True
    show ?thesis
    proof (cases "animMsec w" rule: duration_cases)
      case 1
      from len show ?thesis
      proof (cases rule: anims_cases)
        case 1
        with assms True q r \<open>\<not> valid_duration (animMsec w)\<close> show ?thesis
          by (auto simp: hide_invalid modal_inv_def quiet_def image_iff)
      next
        case (2 a)
        with assms True q r \<open>\<not> valid_duration (animMsec w)\<close> show ?thesis
          by (auto simp: hide_invalid modal_inv_def quiet_def image_iff)
      qed
    next
      case 2
      from len show ?thesis
      proof (cases rule: anims_cases)
        case 1
        with assms True q r \<open>animMsec w = Num 0\<close> show ?thesis
          by (auto simp: hide_zero modal_inv_def quiet_def image_iff cont_of_def start_event_def
              less_Suc_eq)
      next
        case (2 a)
        with assms True q r \<open>animMsec w = Num 0\<close> show ?thesis
          by (auto simp: hide_zero modal_inv_def quiet_def image_iff cont_of_def start_event_def
              less_Suc_eq)
      qed
    next
      case 3
      from len show ?thesis
      proof (cases rule: anims_cases)
        case 1
        with assms True q r 3 show ?thesis
          by (auto simp: hide_accepted modal_inv_def quiet_def image_iff cont_of_def
              start_event_def less_Suc_eq)
      next
        case (2 a)
        with assms True q r 3 show ?thesis
          by (auto simp: hide_accepted modal_inv_def quiet_def image_iff cont_of_def
              start_event_def less_Suc_eq)
      qed
    qed
  qed
qed

lemma takes_focus_upd [simp]:
  "takes_focus (w\<lparr>activeElement := x\<rparr>) e = takes_focus w e"
  "takes_focus (w\<lparr>isClosed := b\<rparr>) e = takes_focus w e"
  "takes_focus (w\<lparr>scrollTop := n\<rparr>) e = takes_focus w e"
  "takes_focus (w\<lparr>frames := n\<rparr>) e = takes_focus w e"
  by (simp_all add: takes_focus_def)

lemma focus_el_eq:
  "focus_el e w =
     w\<lparr>activeElement :=
         (if takes_focus w e
          then (if isOpen w \<and> \<not> contains e \<and> takes_focus w Modal then Some Modal else Some e)
          else activeElement w)\<rparr>"
  by (simp add: focus_el_def focusinHandler_def focus_self_def)

lemma inv_focus_el: "modal_inv w \<Longrightarrow> modal_inv (focus_el e w)"
  by (simp add: focus_el_eq modal_inv_def quiet_def)

lemma frame_callback_eq:
  "frame_callback w =
     w\<lparr>scrollTop := 0,
       activeElement := (if hidden w then activeElement w else Some Modal)\<rparr>"
  by (simp add: frame_callback_def focus_el_eq takes_focus_def)

lemma funpow_frame_callback:
  "(frame_callback ^^ n) w =
     (if n = 0 then w
      else w\<lparr>scrollTop := 0,
             activeElement := (if hidden w then activeElement w else Some Modal)\<rparr>)"
  by (induction n) (auto simp: frame_callback_eq)

lemma animation_frame_eq:
  "animation_frame w =
     (if frames w = 0 then w
      else w\<lparr>frames := 0, scrollTop := 0,
             activeElement := (if hidden w then activeElement w else Some Modal)\<rparr>)"
  by (cases w) (simp add: animation_frame_def funpow_frame_callback)

lemma inv_animation_frame: "modal_inv w \<Longrightarrow> modal_inv (animation_frame w)"
  by (simp add: animation_frame_eq modal_inv_def quiet_def)

lemma render_eq:
  "render w =
     w\<lparr>hidden := isClosed w, rendered := True,
       activeElement :=
         (if isClosed w \<and> activeElement w \<noteq> None \<and> contains (the (activeElement w))
          then None else activeElement w)\<rparr>"
  by (simp add: render_def Let_def)

lemma inv_render: "modal_inv w \<Longrightarrow> modal_inv (render w)"
  by (simp add: render_eq modal_inv_def quiet_def)

lemma shown_cont_quiet:
  "quiet w \<Longrightarrow> shown_cont re w = w\<lparr>trace := Dispatched (createEvent ''shown'') # trace w\<rparr>"
  by (simp add: shown_cont_def dispatchEvent_quiet)

lemma hidden_cont_quiet:
  "quiet w \<Longrightarrow>
   hidden_cont re w =
     w\<lparr>isClosed := True,
       activeElement :=
         (case prevFocusElement w of None \<Rightarrow> activeElement w
          | Some e \<Rightarrow> activeElement (focus_el e w)),
       trace := Dispatched (createEvent ''hidden'') # trace w\<rparr>"
  by (cases "prevFocusElement w")
     (simp_all add: hidden_cont_def Let_def dispatchEvent_quiet quiet_def focus_el_eq)

lemma finish_eq:
  assumes "modal_inv w" and "a \<in> set (anims w) \<union> set (unlisted w)"
  shows "finish re a w =
     (case anim_kind a of
        Entrance \<Rightarrow>
          w\<lparr>anims := filter (\<lambda>b. anim_id b \<noteq> anim_id a) (anims w),
            unlisted := filter (\<lambda>b. anim_id b \<noteq> anim_id a) (unlisted w),
            trace := Dispatched (createEvent ''shown'') # AnimFinished (anim_id a) # trace w\<rparr>
      | Exit \<Rightarrow>
          w\<lparr>isClosed := True,
            activeElement :=
              (case prevFocusElement w of None \<Rightarrow> activeElement w
               | Some e \<Rightarrow> activeElement (focus_el e w)),
            anims := filter (\<lambda>b. anim_id b \<noteq> anim_id a) (anims w),
            unlisted := filter (\<lambda>b. anim_id b \<noteq> anim_id a) (unlisted w),
            trace := Dispatched (createEvent ''hidden'') # AnimFinished (anim_id a) # trace w\<rparr>)"
proof -
  from assms have c: "map_of (conts w) (anim_id a) = Some (cont_of (anim_kind a))"
    and q: "quiet w"
    by (auto simp: modal_inv_def)
  show ?thesis
  proof (cases "anim_kind a")
    case Entrance
    with c q show ?thesis
      by (simp add: finish_def run_conts_def cont_of_def shown_cont_quiet quiet_def)
  next
    case Exit
    with c q show ?thesis
      by (cases "prevFocusElement w")
         (simp_all add: finish_def run_conts_def cont_of_def hidden_cont_quiet quiet_def
            focus_el_eq takes_focus_def)
  qed
qed

lemma inv_finish:
  assumes "modal_inv w" and "a \<in> set (anims w) \<union> set (unlisted w)"
  shows "modal_inv (finish re a w)"
proof -
  from assms(1) have "length (anims w) \<le> 1"
    by (simp add: modal_inv_def)
  then have len: "length (filter (\<lambda>b. anim_id b \<noteq> anim_id a) (anims w)) \<le> 1"
    by (meson le_trans length_filter_le)
  from assms have pa: "anim_id a < nextAnim w"
    "AnimStarted (anim_kind a) (anim_id a) \<in> set (trace w)"
    "AnimCanceled (anim_id a) \<notin> set (trace w)"
    by (auto simp: modal_inv_def)
  show ?thesis
  proof (cases "anim_kind a")
    case Entrance
    with assms(1) pa len show ?thesis
      by (auto simp: finish_eq [OF assms] modal_inv_def quiet_def)
  next
    case Exit
    with assms(1) pa len show ?thesis
      by (auto simp: finish_eq [OF assms] modal_inv_def quiet_def)
  qed
qed

lemma find_in_set: "find P xs = Some a \<Longrightarrow> a \<in> set xs \<and> P a"
  by (induction xs) (auto split: if_splits)


lemma inv_step:
  assumes "modal_inv w" and "quiet_input i" and "step depth i w = Some w'"
  shows "modal_inv w'"
proof (cases i)
  case CallShow
  with assms show ?thesis by (auto simp: inv_show_modal)
next
  case CallHide
  with assms show ?thesis by (auto simp: inv_hide)
next
  case CallToggle
  with assms show ?thesis by (auto simp: toggle_def inv_show_modal inv_hide)
next
  case (Click m)
  with assms show ?thesis by (auto simp: clickHandler_def inv_hide)
next
  case ClickBackdrop
  with assms show ?thesis by (auto simp: clickBackdropHandler_def inv_hide)
next
  case (KeyDown k)
  with assms show ?thesis by (auto simp: keyHandler_def inv_hide)
next
  case (FocusMoves e)
  with assms show ?thesis by (auto simp: inv_focus_el)
next
  case Frame
  with assms show ?thesis by (auto simp: inv_animation_frame)
next
  case (Finish h)
  with assms(3) obtain a where "find (\<lambda>a. anim_id a = h) (anims w @ unlisted w) = Some a"
    and "w' = finish (reenter depth) a w"
    by (auto split: option.splits)
  with assms(1) show ?thesis by (auto dest: find_in_set simp: inv_finish)
next
  case Render
  with assms show ?thesis by (auto simp: inv_render)
next
  case (SetWidth s)
  with assms show ?thesis by (auto simp: modal_inv_def quiet_def)
next
  case (SetBackdrop s)
  with assms show ?thesis by (auto simp: modal_inv_def quiet_def)
next
  case (SetKeyboard s)
  with assms show ?thesis by (auto simp: modal_inv_def quiet_def)
next
  case (SetAnimMsec n)
  with assms show ?thesis by (auto simp: modal_inv_def quiet_def)
next
  case (SetCanFocus e b)
  with assms show ?thesis by (auto simp: modal_inv_def quiet_def)
next
  case (AddListener t c)
  with assms show ?thesis by (simp add: quiet_input_def)
qed

lemma reachable_inv: "reachable quiet_input w \<Longrightarrow> modal_inv w"
  by (induction rule: reachable.induct) (auto intro: inv_new_modal inv_step)

lemma steady_quiet: "steady_input i \<Longrightarrow> quiet_input i"
  by (cases i) (simp_all add: steady_input_def quiet_input_def)

lemma reachable_steady_quiet: "reachable steady_input w \<Longrightarrow> reachable quiet_input w"
  by (induction rule: reachable.induct) (auto intro: reachable.intros steady_quiet)










lemma ready_modal_eq:
  "ready_modal focused classes =
     \<lparr>isOpen = False, isClosed = True, width = ''600px'', backdrop = ''true'',
      keyboard = ''true'', animMsec = Num 300, prevFocusElement = None,
      rendered = True, hidden = True,
      activeElement = (if focused \<noteq> None \<and> contains (the focused) then None else focused),
      canFocus = (\<lambda>e. True), bodyClasses = classes, scrollTop = 0, anims = [],
      unlisted = [], nextAnim = 0, conts = [], frames = 0, listeners = (\<lambda>t. []),
      trace = []\<rparr>"
  by (simp add: ready_modal_def new_modal_def render_eq)

lemma open_state_eq:
  "open_state =
     \<lparr>isOpen = True, isClosed = False, width = ''600px'', backdrop = ''true'',
      keyboard = ''true'', animMsec = Num 300, prevFocusElement = None,
      rendered = True, hidden = True, activeElement = None,
      canFocus = (\<lambda>e. True), bodyClasses = [''modal-open''], scrollTop = 0,
      anims = [\<lparr>anim_id = 0, anim_kind = Entrance, duration = 300\<rparr>],
      unlisted = [], nextAnim = 1, conts = [(0, OnShown)], frames = 1,
      listeners = (\<lambda>t. []),
      trace = [AnimStarted Entrance 0, Dispatched (createEvent ''show'')]\<rparr>"
  by (simp add: open_state_def ready_modal_eq show_modal_accepted valid_duration_def
      msec_of_def classList_add_def)

lemma closing_state_eq:
  "closing_state =
     \<lparr>isOpen = False, isClosed = False, width = ''600px'', backdrop = ''true'',
      keyboard = ''true'', animMsec = Num 300, prevFocusElement = None,
      rendered = True, hidden = True, activeElement = None,
      canFocus = (\<lambda>e. True), bodyClasses = [], scrollTop = 0,
      anims = [\<lparr>anim_id = 1, anim_kind = Exit, duration = 300\<rparr>],
      unlisted = [], nextAnim = 2, conts = [(1, OnHidden), (0, OnShown)], frames = 1,
      listeners = (\<lambda>t. []),
      trace = [AnimStarted Exit 1, Dispatched (createEvent ''hide''), AnimCanceled 0,
               AnimStarted Entrance 0, Dispatched (createEvent ''show'')]\<rparr>"
  by (simp add: closing_state_def open_state_eq hide_accepted valid_duration_def
      msec_of_def classList_remove_def)

lemma run_conts_hidden_nil:
  "map_of (conts w) h = Some OnHidden \<Longrightarrow> listeners w ''hidden'' = [] \<Longrightarrow>
   run_conts re h w =
     (case prevFocusElement w of
        None \<Rightarrow> w\<lparr>isClosed := True, trace := Dispatched (createEvent ''hidden'') # trace w\<rparr>
      | Some e \<Rightarrow>
          (focus_el e (w\<lparr>isClosed := True\<rparr>))
            \<lparr>trace := Dispatched (createEvent ''hidden'') # trace w\<rparr>)"
  by (cases "prevFocusElement w")
     (simp_all add: run_conts_def hidden_cont_def Let_def dispatchEvent_nil focus_el_eq)

lemma closed_again_eq:
  "closed_again =
     \<lparr>isOpen = False, isClosed = True, width = ''600px'', backdrop = ''true'',
      keyboard = ''true'', animMsec = Num 300, prevFocusElement = None,
      rendered = True, hidden = True, activeElement = None,
      canFocus = (\<lambda>e. True), bodyClasses = [], scrollTop = 0,
      anims = [], unlisted = [], nextAnim = 2,
      conts = [(1, OnHidden), (0, OnShown)], frames = 1,
      listeners = (\<lambda>t. []),
      trace = [Dispatched (createEvent ''hidden''), AnimFinished 1,
               AnimStarted Exit 1, Dispatched (createEvent ''hide''), AnimCanceled 0,
               AnimStarted Entrance 0, Dispatched (createEvent ''show'')]\<rparr>"
  by (simp add: closed_again_def closing_state_eq finish_def run_conts_hidden_nil)



lemma reopening_eq:
  "reopening =
     \<lparr>isOpen = True, isClosed = False, width = ''600px'', backdrop = ''true'',
      keyboard = ''true'', animMsec = Num 300, prevFocusElement = None,
      rendered = True, hidden = True, activeElement = None,
      canFocus = (\<lambda>e. True), bodyClasses = [''modal-open''], scrollTop = 0,
      anims = [\<lparr>anim_id = 1, anim_kind = Entrance, duration = 300\<rparr>,
               \<lparr>anim_id = 2, anim_kind = Exit, duration = 300\<rparr>],
      unlisted = [], nextAnim = 3,
      conts = [(2, OnHidden), (1, OnShown), (0, OnShown)], frames = 2,
      listeners = (\<lambda>t. [])(''hide'' := [DoShow]),
      trace = [AnimStarted Exit 2, AnimStarted Entrance 1,
               Dispatched (createEvent ''show''), Dispatched (createEvent ''hide''),
               AnimCanceled 0, AnimStarted Entrance 0,
               Dispatched (createEvent ''show'')]\<rparr>"
  by (simp add: reopening_def ready_modal_eq show_modal_def hide_def Let_def cancelAnims_eq
      dispatchEvent_def reenter_def showAnim_def hideAnim_def animate_def then_cont_def
      tick_def getFocusElement_def valid_duration_def msec_of_def classList_add_def
      classList_remove_def)

lemma reopening_depth:
  "snd (hide (reenter (Suc d)) (snd (show_modal (reenter (Suc d))
       ((ready_modal None [])\<lparr>listeners := (\<lambda>t. [])(''hide'' := [DoShow])\<rparr>)))) = reopening"
  by (simp add: reopening_eq ready_modal_eq show_modal_def hide_def Let_def cancelAnims_eq
      dispatchEvent_def reenter_def showAnim_def hideAnim_def animate_def then_cont_def
      tick_def getFocusElement_def valid_duration_def msec_of_def classList_add_def
      classList_remove_def)


lemma reachable_mono:
  assumes "reachable P w" and "\<And>i. P i \<Longrightarrow> Q i"
  shows "reachable Q w"
  using assms by (induction rule: reachable.induct) (auto intro: reachable.intros)

lemma reachable_any: "reachable P w \<Longrightarrow> reachable any_input w"
  by (erule reachable_mono) (simp add: any_input_def)

lemma reachable_ready: "reachable steady_input (ready_modal focused classes)"
  unfolding ready_modal_def
  by (rule reachable.next_step [where i = Render and depth = 0, OF reachable.start])
     (simp_all add: steady_input_def)

lemma reachable_open_state: "reachable steady_input open_state"
  unfolding open_state_def
  by (rule reachable.next_step [where i = CallShow and depth = 0, OF reachable_ready])
     (simp_all add: steady_input_def)

lemma reachable_closing_state: "reachable steady_input closing_state"
  unfolding closing_state_def
  by (rule reachable.next_step [where i = CallHide and depth = 0, OF reachable_open_state])
     (simp_all add: steady_input_def)

lemma reachable_closed_again: "reachable steady_input closed_again"
  unfolding closed_again_def
  by (rule reachable.next_step [where i = "Finish 1" and depth = 0, OF reachable_closing_state])
     (simp_all add: steady_input_def closing_state_eq)




lemma reachable_reopening: "reachable any_input reopening"
proof -
  have "reachable any_input (ready_modal None [])"
    by (rule reachable_any [OF reachable_ready])
  then have "reachable any_input
      ((ready_modal None [])\<lparr>listeners := (\<lambda>t. [])(''hide'' := [DoShow])\<rparr>)"
    by (rule reachable.next_step [where i = "AddListener ''hide'' DoShow" and depth = 0])
       (simp_all add: any_input_def ready_modal_eq)
  then have "reachable any_input (snd (show_modal (reenter (Suc 0))
      ((ready_modal None [])\<lparr>listeners := (\<lambda>t. [])(''hide'' := [DoShow])\<rparr>)))"
    by (rule reachable.next_step [where i = CallShow and depth = "Suc 0"])
       (simp_all add: any_input_def)
  then show ?thesis
    unfolding reopening_def
    by (rule reachable.next_step [where i = CallHide and depth = "Suc 0"])
       (simp_all add: any_input_def)
qed

lemma valid_zero: "valid_duration m \<Longrightarrow> msec_of m = 0 \<Longrightarrow> m = Num 0"
  by (cases m) (simp_all add: valid_duration_def msec_of_def)

lemma isOpen_show_modal: "listeners w ''show'' = [] \<Longrightarrow> isOpen (snd (show_modal re w))"
proof (cases "isOpen w")
  case True
  then show ?thesis by (simp add: show_modal_refused)
next
  case False
  assume q: "listeners w ''show'' = []"
  show ?thesis
  proof (cases "rendered w")
    case nr: False
    with False show ?thesis by (simp add: show_modal_unrendered)
  next
    case r: True
    show ?thesis
    proof (cases "animMsec w" rule: duration_cases)
      case 1
      with False q r show ?thesis by (simp add: show_modal_invalid)
    next
      case 2
      with False q r show ?thesis by (simp add: show_modal_zero)
    next
      case 3
      with False q r show ?thesis by (simp add: show_modal_accepted)
    qed
  qed
qed






lemma zero_closing_eq:
  "zero_closing =
     \<lparr>isOpen = False, isClosed = False, width = ''600px'', backdrop = ''true'',
      keyboard = ''true'', animMsec = Num 0, prevFocusElement = None,
      rendered = True, hidden = True, activeElement = None,
      canFocus = (\<lambda>e. True), bodyClasses = [], scrollTop = 0,
      anims = [],
      unlisted = [\<lparr>anim_id = 0, anim_kind = Entrance, duration = 0\<rparr>,
                  \<lparr>anim_id = 1, anim_kind = Exit, duration = 0\<rparr>],
      nextAnim = 2, conts = [(1, OnHidden), (0, OnShown)], frames = 1,
      listeners = (\<lambda>t. []),
      trace = [AnimStarted Exit 1, Dispatched (createEvent ''hide''),
               AnimStarted Entrance 0, Dispatched (createEvent ''show'')]\<rparr>"
  by (simp add: zero_closing_def ready_modal_eq show_modal_zero hide_zero
      classList_add_def classList_remove_def)




lemma from_markup_simps [simp]:
  "isOpen (from_markup b k w) = isOpen w"
  "listeners (from_markup b k w) = listeners w"
  "backdrop (from_markup (Some s) k w) = s"
  "keyboard (from_markup b (Some s) w) = s"
  "backdrop (from_markup None k w) = backdrop w"
  "keyboard (from_markup b None w) = keyboard w"
  by (simp_all add: from_markup_def Let_def split: option.splits)

lemma show_then_hide_eq:
  assumes "\<not> isOpen w" and "quiet w" and "rendered w" and "valid_duration (animMsec w)"
    and "msec_of (animMsec w) \<noteq> 0"
  shows "show_then_hide re w =
     w\<lparr>isOpen := False, isClosed := False,
       prevFocusElement := activeElement w,
       bodyClasses := classList_remove ''modal-open''
                        (classList_add ''modal-open'' (bodyClasses w)),
       anims := [\<lparr>anim_id = Suc (nextAnim w), anim_kind = Exit,
                  duration = msec_of (animMsec w)\<rparr>],
       nextAnim := Suc (Suc (nextAnim w)),
       conts := (Suc (nextAnim w), OnHidden) # (nextAnim w, OnShown) # conts w,
       frames := Suc (frames w),
       trace := AnimStarted Exit (Suc (nextAnim w)) # Dispatched (createEvent ''hide'')
                # AnimCanceled (nextAnim w) # trace (snd (show_modal re w))\<rparr>"
  using assms
  by (simp add: show_then_hide_def show_modal_accepted hide_accepted quiet_listeners)

section \<open>The claims\<close>

subsection \<open>C1: show\<close>

text \<open>
  Claim C1 has every call of \<open>show\<close> on a modal that is not open start the entrance
  animation and return true. With \<open>animMsec\<close> not a number, \<open>show\<close> sets the
  flags, adds the class, dispatches \<open>show\<close>, and then \<open>animate\<close> throws a
  \<open>TypeError\<close>: \<open>show\<close> does not return and no animation is started. On an element
  that has not rendered the container is null and \<open>show\<close> throws in \<open>cancelAnims\<close>.
\<close>

theorem show_throws_counterexample:
  "\<not> isOpen nan_modal
   \<and> fst (show_modal (reenter 0) nan_modal) = Inl TypeError
   \<and> anims (snd (show_modal (reenter 0) nan_modal)) = []
   \<and> unlisted (snd (show_modal (reenter 0) nan_modal)) = []
   \<and> \<not> isOpen (new_modal None [])
   \<and> fst (show_modal (reenter 0) (new_modal None [])) = Inl TypeError"
  by (simp add: nan_modal_def ready_modal_eq show_modal_invalid show_modal_unrendered
      valid_duration_def new_modal_def)

text \<open>
  Claim C1, amended. A call of \<open>show\<close> on an open modal returns false and leaves the
  state as it is, trace included, so no event is dispatched. On a modal that is not
  open, that has rendered, whose \<open>animMsec\<close> is a number that is not negative and
  whose \<open>show\<close> event has no listener calling into the modal, it returns true and the
  state changes in exactly this way: the active element is kept in
  \<open>prevFocusElement\<close>, \<open>isOpen\<close> is true and \<open>isClosed\<close> false, the body has the
  class \<open>modal-open\<close>, every listed animation of the container has been cancelled,
  then the event named \<open>show\<close> has been dispatched, then the entrance animation has
  been started (listed, or over at once when the duration is 0); the callback for
  \<open>shown\<close> waits on its promise and one frame callback is pending. With a duration
  that is negative or not a number it throws a \<open>TypeError\<close> after the flags, the
  class, the cancellations and the event; on an element that has not rendered it
  throws a \<open>TypeError\<close> after the flags and the class. A second call right after the
  first returns false and changes nothing.
\<close>

theorem show_modal_spec:
  "(isOpen w \<longrightarrow> show_modal re w = (Inr False, w))
   \<and> (\<not> isOpen w \<and> listeners w ''show'' = [] \<and> rendered w \<and> valid_duration (animMsec w)
      \<longrightarrow>
        show_modal re w =
          (Inr True,
           w\<lparr>isOpen := True, isClosed := False,
             prevFocusElement := activeElement w,
             bodyClasses := classList_add ''modal-open'' (bodyClasses w),
             anims :=
               (if msec_of (animMsec w) = 0 then []
                else [\<lparr>anim_id = nextAnim w, anim_kind = Entrance,
                       duration = msec_of (animMsec w)\<rparr>]),
             unlisted :=
               (if msec_of (animMsec w) = 0
                then unlisted w @ [\<lparr>anim_id = nextAnim w, anim_kind = Entrance,
                                     duration = msec_of (animMsec w)\<rparr>]
                else unlisted w),
             nextAnim := Suc (nextAnim w),
             conts := (nextAnim w, OnShown) # conts w,
             frames := Suc (frames w),
             trace := AnimStarted Entrance (nextAnim w)
                      # Dispatched \<lparr>ev_type = ''show'', bubbles = True, cancelable = True\<rparr>
                      # map (\<lambda>a. AnimCanceled (anim_id a)) (rev (anims w))
                      @ trace w\<rparr>)
        \<and> ''modal-open'' \<in> set (bodyClasses (snd (show_modal re w))))
   \<and> (\<not> isOpen w \<and> listeners w ''show'' = [] \<and> rendered w
        \<and> \<not> valid_duration (animMsec w)
      \<longrightarrow>
        show_modal re w =
          (Inl TypeError,
           w\<lparr>isOpen := True, isClosed := False,
             prevFocusElement := activeElement w,
             bodyClasses := classList_add ''modal-open'' (bodyClasses w),
             anims := [],
             trace := Dispatched \<lparr>ev_type = ''show'', bubbles = True, cancelable = True\<rparr>
                      # map (\<lambda>a. AnimCanceled (anim_id a)) (rev (anims w))
                      @ trace w\<rparr>))
   \<and> (\<not> isOpen w \<and> \<not> rendered w
      \<longrightarrow>
        show_modal re w =
          (Inl TypeError,
           w\<lparr>isOpen := True, isClosed := False,
             prevFocusElement := activeElement w,
             bodyClasses := classList_add ''modal-open'' (bodyClasses w)\<rparr>))
   \<and> (listeners w ''show'' = []
      \<longrightarrow> show_modal re (snd (show_modal re w)) = (Inr False, snd (show_modal re w)))"
proof (intro conjI impI)
  assume "isOpen w"
  then show "show_modal re w = (Inr False, w)"
    by (rule show_modal_refused)
next
  assume a: "\<not> isOpen w \<and> listeners w ''show'' = [] \<and> rendered w
    \<and> valid_duration (animMsec w)"
  show "show_modal re w =
          (Inr True,
           w\<lparr>isOpen := True, isClosed := False,
             prevFocusElement := activeElement w,
             bodyClasses := classList_add ''modal-open'' (bodyClasses w),
             anims :=
               (if msec_of (animMsec w) = 0 then []
                else [\<lparr>anim_id = nextAnim w, anim_kind = Entrance,
                       duration = msec_of (animMsec w)\<rparr>]),
             unlisted :=
               (if msec_of (animMsec w) = 0
                then unlisted w @ [\<lparr>anim_id = nextAnim w, anim_kind = Entrance,
                                     duration = msec_of (animMsec w)\<rparr>]
                else unlisted w),
             nextAnim := Suc (nextAnim w),
             conts := (nextAnim w, OnShown) # conts w,
             frames := Suc (frames w),
             trace := AnimStarted Entrance (nextAnim w)
                      # Dispatched \<lparr>ev_type = ''show'', bubbles = True, cancelable = True\<rparr>
                      # map (\<lambda>a. AnimCanceled (anim_id a)) (rev (anims w))
                      @ trace w\<rparr>)"
  proof (cases "msec_of (animMsec w) = 0")
    case True
    with a have "animMsec w = Num 0" by (simp add: valid_zero)
    with a show ?thesis
      by (simp add: show_modal_zero msec_of_def createEvent_def)
  next
    case False
    with a show ?thesis
      by (simp add: show_modal_accepted createEvent_def)
  qed
  then show "''modal-open'' \<in> set (bodyClasses (snd (show_modal re w)))"
    by (simp add: classList_add_def)
next
  assume "\<not> isOpen w \<and> listeners w ''show'' = [] \<and> rendered w
    \<and> \<not> valid_duration (animMsec w)"
  then show "show_modal re w =
          (Inl TypeError,
           w\<lparr>isOpen := True, isClosed := False,
             prevFocusElement := activeElement w,
             bodyClasses := classList_add ''modal-open'' (bodyClasses w),
             anims := [],
             trace := Dispatched \<lparr>ev_type = ''show'', bubbles = True, cancelable = True\<rparr>
                      # map (\<lambda>a. AnimCanceled (anim_id a)) (rev (anims w))
                      @ trace w\<rparr>)"
    by (simp add: show_modal_invalid createEvent_def)
next
  assume "\<not> isOpen w \<and> \<not> rendered w"
  then show "show_modal re w =
          (Inl TypeError,
           w\<lparr>isOpen := True, isClosed := False,
             prevFocusElement := activeElement w,
             bodyClasses := classList_add ''modal-open'' (bodyClasses w)\<rparr>)"
    by (simp add: show_modal_unrendered)
next
  assume "listeners w ''show'' = []"
  then have "isOpen (snd (show_modal re w))"
    by (rule isOpen_show_modal)
  then show "show_modal re (snd (show_modal re w)) = (Inr False, snd (show_modal re w))"
    by (rule show_modal_refused)
qed

text \<open>
  The theorem at a rendered modal while an element outside has the focus, at the state
  after \<open>show\<close>, at a modal with \<open>animMsec = NaN\<close>, and at a modal that has not
  rendered.
\<close>

theorem show_modal_spec_witness:
  "\<not> isOpen (ready_modal (Some (Outside 1)) [])
   \<and> fst (show_modal (reenter 0) (ready_modal (Some (Outside 1)) [])) = Inr True
   \<and> prevFocusElement (snd (show_modal (reenter 0) (ready_modal (Some (Outside 1)) [])))
       = Some (Outside 1)
   \<and> bodyClasses (snd (show_modal (reenter 0) (ready_modal (Some (Outside 1)) [])))
       = [''modal-open'']
   \<and> isOpen (snd (show_modal (reenter 0) (ready_modal (Some (Outside 1)) [])))
   \<and> fst (show_modal (reenter 0)
        (snd (show_modal (reenter 0) (ready_modal (Some (Outside 1)) [])))) = Inr False
   \<and> fst (show_modal (reenter 0) nan_modal) = Inl TypeError
   \<and> fst (show_modal (reenter 0) (new_modal None [])) = Inl TypeError"
proof -
  let ?w = "ready_modal (Some (Outside 1)) []"
  have h: "\<not> isOpen ?w" "listeners ?w ''show'' = []" "rendered ?w"
    "valid_duration (animMsec ?w)" "activeElement ?w = Some (Outside 1)"
    "bodyClasses ?w = []"
    by (simp_all add: ready_modal_eq valid_duration_def)
  have n: "\<not> isOpen nan_modal" "listeners nan_modal ''show'' = []" "rendered nan_modal"
    "\<not> valid_duration (animMsec nan_modal)"
    by (simp_all add: nan_modal_def ready_modal_eq valid_duration_def)
  have u: "\<not> isOpen (new_modal None [])" "\<not> rendered (new_modal None [])"
    by (simp_all add: new_modal_def)
  from show_modal_spec [of ?w "reenter 0"] h
  have 1: "fst (show_modal (reenter 0) ?w) = Inr True"
    and 2: "prevFocusElement (snd (show_modal (reenter 0) ?w)) = Some (Outside 1)"
    and 3: "bodyClasses (snd (show_modal (reenter 0) ?w)) = [''modal-open'']"
    and 4: "isOpen (snd (show_modal (reenter 0) ?w))"
    by (simp_all add: classList_add_def)
  from show_modal_spec [of ?w "reenter 0"] h(2)
  have "show_modal (reenter 0) (snd (show_modal (reenter 0) ?w))
      = (Inr False, snd (show_modal (reenter 0) ?w))"
    by blast
  then have 5: "fst (show_modal (reenter 0) (snd (show_modal (reenter 0) ?w))) = Inr False"
    by simp
  from show_modal_spec [of nan_modal "reenter 0"] n
  have 6: "fst (show_modal (reenter 0) nan_modal) = Inl TypeError"
    by simp
  from show_modal_spec [of "new_modal None []" "reenter 0"] u
  have 7: "fst (show_modal (reenter 0) (new_modal None [])) = Inl TypeError"
    by simp
  from h(1) 1 2 3 4 5 6 7 show ?thesis by blast
qed

subsection \<open>C2: hide\<close>

text \<open>
  Claim C2 tells the two cases of \<open>hide\<close> apart by whether the modal is closed, and
  has every other call start the exit animation and return true. The method tests
  \<open>isOpen\<close>: after \<open>show\<close> and \<open>hide\<close> the exit animation runs, \<open>isClosed\<close> is
  false, and \<open>hide\<close> returns false and does nothing. And on an open modal with
  \<open>animMsec\<close> not a number, \<open>hide\<close> throws a \<open>TypeError\<close> and starts no animation.
\<close>

theorem hide_closing_counterexample:
  "reachable steady_input closing_state \<and> \<not> isClosed closing_state
   \<and> hide (reenter 0) closing_state = (Inr False, closing_state)
   \<and> isOpen open_nan \<and> \<not> isClosed open_nan
   \<and> fst (hide (reenter 0) open_nan) = Inl TypeError
   \<and> unlisted (snd (hide (reenter 0) open_nan)) = []
   \<and> anims (snd (hide (reenter 0) open_nan)) = []"
proof (intro conjI)
  show "reachable steady_input closing_state"
    by (rule reachable_closing_state)
  show "\<not> isClosed closing_state"
    by (simp add: closing_state_eq)
  have "\<not> isOpen closing_state"
    by (simp add: closing_state_eq)
  then show "hide (reenter 0) closing_state = (Inr False, closing_state)"
    by (rule hide_refused)
  show "isOpen open_nan" and "\<not> isClosed open_nan"
    by (simp_all add: open_nan_def open_state_eq)
  show "fst (hide (reenter 0) open_nan) = Inl TypeError"
    and "unlisted (snd (hide (reenter 0) open_nan)) = []"
    and "anims (snd (hide (reenter 0) open_nan)) = []"
    by (simp_all add: open_nan_def open_state_eq hide_invalid valid_duration_def)
qed

text \<open>
  Claim C2, amended. A call of \<open>hide\<close> on a modal that is not open (closed, or closing)
  returns false and leaves the state as it is. On an open modal that has rendered,
  whose \<open>animMsec\<close> is a number that is not negative and whose \<open>hide\<close> event has no
  listener calling into the modal, it returns true and the state changes in exactly
  this way: the body no longer has the class \<open>modal-open\<close>, \<open>isOpen\<close> is false,
  every listed animation of the container has been cancelled, then the event named
  \<open>hide\<close> has been dispatched, then the exit animation has been started (listed, or
  over at once when the duration is 0), and the callback for \<open>hidden\<close> waits on its
  promise. With a duration that is negative or not a number it throws a \<open>TypeError\<close>
  after the class, the flag, the cancellations and the event; on an element that has
  not rendered it throws a \<open>TypeError\<close> after the class and the flag.
\<close>

theorem hide_spec:
  "(\<not> isOpen w \<longrightarrow> hide re w = (Inr False, w))
   \<and> (isOpen w \<and> listeners w ''hide'' = [] \<and> rendered w \<and> valid_duration (animMsec w)
      \<longrightarrow>
        hide re w =
          (Inr True,
           w\<lparr>isOpen := False,
             bodyClasses := classList_remove ''modal-open'' (bodyClasses w),
             anims :=
               (if msec_of (animMsec w) = 0 then []
                else [\<lparr>anim_id = nextAnim w, anim_kind = Exit,
                       duration = msec_of (animMsec w)\<rparr>]),
             unlisted :=
               (if msec_of (animMsec w) = 0
                then unlisted w @ [\<lparr>anim_id = nextAnim w, anim_kind = Exit,
                                     duration = msec_of (animMsec w)\<rparr>]
                else unlisted w),
             nextAnim := Suc (nextAnim w),
             conts := (nextAnim w, OnHidden) # conts w,
             trace := AnimStarted Exit (nextAnim w)
                      # Dispatched \<lparr>ev_type = ''hide'', bubbles = True, cancelable = True\<rparr>
                      # map (\<lambda>a. AnimCanceled (anim_id a)) (rev (anims w))
                      @ trace w\<rparr>)
        \<and> ''modal-open'' \<notin> set (bodyClasses (snd (hide re w))))
   \<and> (isOpen w \<and> listeners w ''hide'' = [] \<and> rendered w \<and> \<not> valid_duration (animMsec w)
      \<longrightarrow>
        hide re w =
          (Inl TypeError,
           w\<lparr>isOpen := False,
             bodyClasses := classList_remove ''modal-open'' (bodyClasses w),
             anims := [],
             trace := Dispatched \<lparr>ev_type = ''hide'', bubbles = True, cancelable = True\<rparr>
                      # map (\<lambda>a. AnimCanceled (anim_id a)) (rev (anims w))
                      @ trace w\<rparr>))
   \<and> (isOpen w \<and> \<not> rendered w
      \<longrightarrow>
        hide re w =
          (Inl TypeError,
           w\<lparr>isOpen := False,
             bodyClasses := classList_remove ''modal-open'' (bodyClasses w)\<rparr>))"
proof (intro conjI impI)
  assume "\<not> isOpen w"
  then show "hide re w = (Inr False, w)"
    by (rule hide_refused)
next
  assume a: "isOpen w \<and> listeners w ''hide'' = [] \<and> rendered w \<and> valid_duration (animMsec w)"
  show "hide re w =
          (Inr True,
           w\<lparr>isOpen := False,
             bodyClasses := classList_remove ''modal-open'' (bodyClasses w),
             anims :=
               (if msec_of (animMsec w) = 0 then []
                else [\<lparr>anim_id = nextAnim w, anim_kind = Exit,
                       duration = msec_of (animMsec w)\<rparr>]),
             unlisted :=
               (if msec_of (animMsec w) = 0
                then unlisted w @ [\<lparr>anim_id = nextAnim w, anim_kind = Exit,
                                     duration = msec_of (animMsec w)\<rparr>]
                else unlisted w),
             nextAnim := Suc (nextAnim w),
             conts := (nextAnim w, OnHidden) # conts w,
             trace := AnimStarted Exit (nextAnim w)
                      # Dispatched \<lparr>ev_type = ''hide'', bubbles = True, cancelable = True\<rparr>
                      # map (\<lambda>a. AnimCanceled (anim_id a)) (rev (anims w))
                      @ trace w\<rparr>)"
  proof (cases "msec_of (animMsec w) = 0")
    case True
    with a have "animMsec w = Num 0" by (simp add: valid_zero)
    with a show ?thesis
      by (simp add: hide_zero msec_of_def createEvent_def)
  next
    case False
    with a show ?thesis
      by (simp add: hide_accepted createEvent_def)
  qed
  then show "''modal-open'' \<notin> set (bodyClasses (snd (hide re w)))"
    by (simp add: classList_remove_def)
next
  assume "isOpen w \<and> listeners w ''hide'' = [] \<and> rendered w \<and> \<not> valid_duration (animMsec w)"
  then show "hide re w =
          (Inl TypeError,
           w\<lparr>isOpen := False,
             bodyClasses := classList_remove ''modal-open'' (bodyClasses w),
             anims := [],
             trace := Dispatched \<lparr>ev_type = ''hide'', bubbles = True, cancelable = True\<rparr>
                      # map (\<lambda>a. AnimCanceled (anim_id a)) (rev (anims w))
                      @ trace w\<rparr>)"
    by (simp add: hide_invalid createEvent_def)
next
  assume "isOpen w \<and> \<not> rendered w"
  then show "hide re w =
          (Inl TypeError,
           w\<lparr>isOpen := False,
             bodyClasses := classList_remove ''modal-open'' (bodyClasses w)\<rparr>)"
    by (simp add: hide_unrendered)
qed

text \<open>
  The theorem at a closed modal, at the state after \<open>show\<close>, at an open modal with
  \<open>animMsec = NaN\<close>, and at an open modal whose container is missing.
\<close>

theorem hide_spec_witness:
  "\<not> isOpen (ready_modal None [])
   \<and> fst (hide (reenter 0) (ready_modal None [])) = Inr False
   \<and> isOpen open_state
   \<and> fst (hide (reenter 0) open_state) = Inr True
   \<and> \<not> isOpen (snd (hide (reenter 0) open_state))
   \<and> bodyClasses (snd (hide (reenter 0) open_state)) = []
   \<and> anims (snd (hide (reenter 0) open_state))
       = [\<lparr>anim_id = 1, anim_kind = Exit, duration = 300\<rparr>]
   \<and> fst (hide (reenter 0) open_nan) = Inl TypeError
   \<and> fst (hide (reenter 0) (open_state\<lparr>rendered := False\<rparr>)) = Inl TypeError"
proof -
  have c: "\<not> isOpen (ready_modal None [])"
    by (simp add: ready_modal_eq)
  have h: "isOpen open_state" "listeners open_state ''hide'' = []" "rendered open_state"
    "valid_duration (animMsec open_state)" "msec_of (animMsec open_state) = 300"
    "bodyClasses open_state = [''modal-open'']" "nextAnim open_state = 1"
    by (simp_all add: open_state_eq valid_duration_def msec_of_def)
  have n: "isOpen open_nan" "listeners open_nan ''hide'' = []" "rendered open_nan"
    "\<not> valid_duration (animMsec open_nan)"
    by (simp_all add: open_nan_def open_state_eq valid_duration_def)
  have u: "isOpen (open_state\<lparr>rendered := False\<rparr>)"
    "\<not> rendered (open_state\<lparr>rendered := False\<rparr>)"
    by (simp_all add: open_state_eq)
  from hide_spec [of "ready_modal None []" "reenter 0"] c
  have 1: "fst (hide (reenter 0) (ready_modal None [])) = Inr False"
    by simp
  from hide_spec [of open_state "reenter 0"] h
  have 2: "fst (hide (reenter 0) open_state) = Inr True"
    and 3: "\<not> isOpen (snd (hide (reenter 0) open_state))"
    and 4: "bodyClasses (snd (hide (reenter 0) open_state)) = []"
    and 5: "anims (snd (hide (reenter 0) open_state))
       = [\<lparr>anim_id = 1, anim_kind = Exit, duration = 300\<rparr>]"
    by (simp_all add: classList_remove_def)
  from hide_spec [of open_nan "reenter 0"] n
  have 6: "fst (hide (reenter 0) open_nan) = Inl TypeError"
    by simp
  from hide_spec [of "open_state\<lparr>rendered := False\<rparr>" "reenter 0"] u
  have 7: "fst (hide (reenter 0) (open_state\<lparr>rendered := False\<rparr>)) = Inl TypeError"
    by simp
  from c h(1) 1 2 3 4 5 6 7 show ?thesis by blast
qed

subsection \<open>C3: the two flags\<close>




subsection \<open>C4: the promises of showAnim and hideAnim\<close>

text \<open>
  Claim C4 has the returned promise resolve when the animation is aborted. In the
  executor only the callback of \<open>then\<close> calls \<open>resolve\<close>, and it does not run when
  \<open>anim.finished\<close> is rejected: the promise returned for an aborted animation stays
  pending.
\<close>

theorem anim_abort_counterexample:
  "fst (showAnim (Num 300) (ready_modal None [])) = Inr 0
   \<and> snd (showAnim_promise 0 (Rejected AbortError)) = Pending
   \<and> fst (hideAnim (Num 300) (ready_modal None [])) = Inr 0
   \<and> snd (hideAnim_promise 0 (Rejected AbortError)) = Pending"
  by (simp add: showAnim_def hideAnim_def animate_def Let_def ready_modal_eq
      valid_duration_def)

text \<open>
  Claim C4, amended. The promise that \<open>showAnim\<close> (and likewise \<open>hideAnim\<close>) returns
  is fulfilled with the handle of its animation when that animation ends by itself.
  When the animation is aborted, the error is swallowed, as the chain inside the
  executor ends fulfilled, and the returned promise is neither fulfilled nor rejected:
  it stays pending. This holds for every handle; and for every rendered container and
  every valid duration the call starts one animation and returns the promise of its
  handle.
\<close>

theorem anim_promise_spec:
  "showAnim_promise h (Fulfilled h) = (Fulfilled (), Fulfilled h)
   \<and> showAnim_promise h (Rejected e) = (Fulfilled (), Pending)
   \<and> hideAnim_promise h (Fulfilled h) = (Fulfilled (), Fulfilled h)
   \<and> hideAnim_promise h (Rejected e) = (Fulfilled (), Pending)
   \<and> (rendered w \<and> valid_duration msec \<longrightarrow>
        fst (showAnim msec w) = Inr (nextAnim w)
        \<and> fst (hideAnim msec w) = Inr (nextAnim w)
        \<and> anims (snd (showAnim msec w)) @ unlisted (snd (showAnim msec w))
          = (if msec_of msec = 0
             then anims w @ unlisted w
                  @ [\<lparr>anim_id = nextAnim w, anim_kind = Entrance, duration = 0\<rparr>]
             else anims w
                  @ [\<lparr>anim_id = nextAnim w, anim_kind = Entrance, duration = msec_of msec\<rparr>]
                  @ unlisted w)
        \<and> anims (snd (hideAnim msec w)) @ unlisted (snd (hideAnim msec w))
          = (if msec_of msec = 0
             then anims w @ unlisted w
                  @ [\<lparr>anim_id = nextAnim w, anim_kind = Exit, duration = 0\<rparr>]
             else anims w
                  @ [\<lparr>anim_id = nextAnim w, anim_kind = Exit, duration = msec_of msec\<rparr>]
                  @ unlisted w))"
  by (simp add: showAnim_def hideAnim_def animate_def Let_def)

text \<open>The theorem at a rendered modal and 300 ms.\<close>

theorem anim_promise_spec_witness:
  "rendered (ready_modal None []) \<and> valid_duration (Num 300)
   \<and> fst (showAnim (Num 300) (ready_modal None [])) = Inr 0
   \<and> showAnim_promise 0 (Fulfilled 0) = (Fulfilled (), Fulfilled 0)
   \<and> showAnim_promise 0 (Rejected AbortError) = (Fulfilled (), Pending)
   \<and> anims (snd (hideAnim (Num 300) (ready_modal None [])))
       @ unlisted (snd (hideAnim (Num 300) (ready_modal None [])))
     = [\<lparr>anim_id = 0, anim_kind = Exit, duration = 300\<rparr>]"
proof -
  have h: "rendered (ready_modal None [])" "valid_duration (Num 300)"
    "msec_of (Num 300) = 300" "nextAnim (ready_modal None []) = 0"
    "anims (ready_modal None []) = []" "unlisted (ready_modal None []) = []"
    by (simp_all add: ready_modal_eq valid_duration_def msec_of_def)
  from anim_promise_spec [of 0 AbortError "ready_modal None []" "Num 300"] h
  show ?thesis by simp
qed

subsection \<open>C5: the order of events and animations\<close>



subsection \<open>C6: the end of the exit animation\<close>




subsection \<open>C7: dismissal by backdrop and keyboard\<close>




subsection \<open>C8: hide during the entrance animation\<close>

text \<open>
  Claim C8 has the entrance animation cancelled before the exit animation starts, and
  at most one animation at any time. When a listener of \<open>hide\<close> calls \<open>show\<close>, the
  new entrance animation is started inside \<open>dispatchEvent\<close> and the exit animation
  after it: two animations run. With \<open>anim-msec="0"\<close> the entrance animation is not
  listed when \<open>hide\<close> is called: nothing is cancelled, and its end is delivered after
  \<open>hide\<close>, so that \<open>shown\<close> is dispatched then.
\<close>

theorem two_animations_counterexample:
  "reachable any_input reopening
   \<and> anims reopening = [\<lparr>anim_id = 1, anim_kind = Entrance, duration = 300\<rparr>,
                        \<lparr>anim_id = 2, anim_kind = Exit, duration = 300\<rparr>]
   \<and> reachable quiet_input zero_closing
   \<and> trace zero_closing =
       [AnimStarted Exit 1,
        Dispatched \<lparr>ev_type = ''hide'', bubbles = True, cancelable = True\<rparr>,
        AnimStarted Entrance 0,
        Dispatched \<lparr>ev_type = ''show'', bubbles = True, cancelable = True\<rparr>]
   \<and> step 0 (Finish 0) zero_closing
       = Some (finish (reenter 0) \<lparr>anim_id = 0, anim_kind = Entrance, duration = 0\<rparr>
                 zero_closing)
   \<and> trace (finish (reenter 0) \<lparr>anim_id = 0, anim_kind = Entrance, duration = 0\<rparr>
              zero_closing)
       = Dispatched \<lparr>ev_type = ''shown'', bubbles = True, cancelable = True\<rparr>
         # AnimFinished 0 # trace zero_closing"
proof (intro conjI)
  show "reachable any_input reopening"
    by (rule reachable_reopening)
  show "anims reopening = [\<lparr>anim_id = 1, anim_kind = Entrance, duration = 300\<rparr>,
                        \<lparr>anim_id = 2, anim_kind = Exit, duration = 300\<rparr>]"
    by (simp add: reopening_eq)
  have "reachable quiet_input (ready_modal None [])"
    by (rule reachable_mono [OF reachable_ready]) (rule steady_quiet)
  then have "reachable quiet_input ((ready_modal None [])\<lparr>animMsec := Num 0\<rparr>)"
    by (rule reachable.next_step [where i = "SetAnimMsec (Num 0)" and depth = 0])
       (simp_all add: quiet_input_def)
  then have "reachable quiet_input
      (snd (show_modal (reenter 0) ((ready_modal None [])\<lparr>animMsec := Num 0\<rparr>)))"
    by (rule reachable.next_step [where i = CallShow and depth = 0])
       (simp_all add: quiet_input_def)
  then show "reachable quiet_input zero_closing"
    unfolding zero_closing_def
    by (rule reachable.next_step [where i = CallHide and depth = 0])
       (simp_all add: quiet_input_def)
  show "trace zero_closing =
       [AnimStarted Exit 1,
        Dispatched \<lparr>ev_type = ''hide'', bubbles = True, cancelable = True\<rparr>,
        AnimStarted Entrance 0,
        Dispatched \<lparr>ev_type = ''show'', bubbles = True, cancelable = True\<rparr>]"
    by (simp add: zero_closing_eq createEvent_def)
  show "step 0 (Finish 0) zero_closing
       = Some (finish (reenter 0) \<lparr>anim_id = 0, anim_kind = Entrance, duration = 0\<rparr>
                 zero_closing)"
    by (simp add: zero_closing_eq)
  show "trace (finish (reenter 0) \<lparr>anim_id = 0, anim_kind = Entrance, duration = 0\<rparr>
              zero_closing)
       = Dispatched \<lparr>ev_type = ''shown'', bubbles = True, cancelable = True\<rparr>
         # AnimFinished 0 # trace zero_closing"
    by (simp add: zero_closing_eq finish_def run_conts_def shown_cont_def dispatchEvent_nil
        createEvent_def)
qed

text \<open>
  Claim C8, amended. In every state reached without a listener calling into the modal,
  at most one animation of the container is listed and no rejection has gone
  unhandled. When \<open>hide\<close> follows an accepted \<open>show\<close> at once, on a rendered modal
  with a positive duration and no listener calling into it, the entrance animation is
  the only one listed before, it is cancelled before the event named \<open>hide\<close> is
  dispatched and the exit animation is started, and the exit animation is the only one
  listed after; the exit animation can come to its end, and then the modal is closed,
  no animation is listed, and the event named \<open>hidden\<close> has been dispatched last.
\<close>

theorem rapid_show_hide:
  "(reachable quiet_input w \<longrightarrow>
      length (anims w) \<le> 1 \<and> list_all (\<lambda>x. \<not> is_unhandled x) (trace w))
   \<and> (\<not> isOpen w \<and> quiet w \<and> rendered w \<and> valid_duration (animMsec w)
        \<and> msec_of (animMsec w) \<noteq> 0 \<longrightarrow>
        anims (snd (show_modal (reenter depth) w))
          = [\<lparr>anim_id = nextAnim w, anim_kind = Entrance,
              duration = msec_of (animMsec w)\<rparr>]
        \<and> trace (show_then_hide (reenter depth) w)
          = AnimStarted Exit (Suc (nextAnim w))
            # Dispatched \<lparr>ev_type = ''hide'', bubbles = True, cancelable = True\<rparr>
            # AnimCanceled (nextAnim w) # trace (snd (show_modal (reenter depth) w))
        \<and> anims (show_then_hide (reenter depth) w)
          = [\<lparr>anim_id = Suc (nextAnim w), anim_kind = Exit,
              duration = msec_of (animMsec w)\<rparr>]
        \<and> \<not> isOpen (show_then_hide (reenter depth) w)
        \<and> step depth (Finish (Suc (nextAnim w))) (show_then_hide (reenter depth) w)
          = Some (finish (reenter depth)
                   \<lparr>anim_id = Suc (nextAnim w), anim_kind = Exit,
                    duration = msec_of (animMsec w)\<rparr>
                   (show_then_hide (reenter depth) w))
        \<and> \<not> isOpen (finish (reenter depth)
                   \<lparr>anim_id = Suc (nextAnim w), anim_kind = Exit,
                    duration = msec_of (animMsec w)\<rparr>
                   (show_then_hide (reenter depth) w))
        \<and> isClosed (finish (reenter depth)
                   \<lparr>anim_id = Suc (nextAnim w), anim_kind = Exit,
                    duration = msec_of (animMsec w)\<rparr>
                   (show_then_hide (reenter depth) w))
        \<and> anims (finish (reenter depth)
                   \<lparr>anim_id = Suc (nextAnim w), anim_kind = Exit,
                    duration = msec_of (animMsec w)\<rparr>
                   (show_then_hide (reenter depth) w)) = []
        \<and> trace (finish (reenter depth)
                   \<lparr>anim_id = Suc (nextAnim w), anim_kind = Exit,
                    duration = msec_of (animMsec w)\<rparr>
                   (show_then_hide (reenter depth) w))
          = Dispatched \<lparr>ev_type = ''hidden'', bubbles = True, cancelable = True\<rparr>
            # AnimFinished (Suc (nextAnim w)) # trace (show_then_hide (reenter depth) w))"
proof (intro conjI impI)
  assume "reachable quiet_input w"
  then have "modal_inv w" by (rule reachable_inv)
  then show "length (anims w) \<le> 1" and "list_all (\<lambda>x. \<not> is_unhandled x) (trace w)"
    by (simp_all add: modal_inv_def)
next
  let ?re = "reenter depth"
  let ?x = "\<lparr>anim_id = Suc (nextAnim w), anim_kind = Exit, duration = msec_of (animMsec w)\<rparr>"
  assume a: "\<not> isOpen w \<and> quiet w \<and> rendered w \<and> valid_duration (animMsec w)
    \<and> msec_of (animMsec w) \<noteq> 0"
  then have e: "show_then_hide ?re w =
     w\<lparr>isOpen := False, isClosed := False,
       prevFocusElement := activeElement w,
       bodyClasses := classList_remove ''modal-open''
                        (classList_add ''modal-open'' (bodyClasses w)),
       anims := [?x],
       nextAnim := Suc (Suc (nextAnim w)),
       conts := (Suc (nextAnim w), OnHidden) # (nextAnim w, OnShown) # conts w,
       frames := Suc (frames w),
       trace := AnimStarted Exit (Suc (nextAnim w)) # Dispatched (createEvent ''hide'')
                # AnimCanceled (nextAnim w) # trace (snd (show_modal ?re w))\<rparr>"
    by (simp add: show_then_hide_eq)
  from a have q: "listeners w ''hidden'' = []" "listeners w ''show'' = []"
    by (simp_all add: quiet_listeners)
  from a show "anims (snd (show_modal ?re w))
          = [\<lparr>anim_id = nextAnim w, anim_kind = Entrance,
              duration = msec_of (animMsec w)\<rparr>]"
    by (simp add: show_modal_accepted quiet_listeners)
  show "trace (show_then_hide ?re w)
          = AnimStarted Exit (Suc (nextAnim w))
            # Dispatched \<lparr>ev_type = ''hide'', bubbles = True, cancelable = True\<rparr>
            # AnimCanceled (nextAnim w) # trace (snd (show_modal ?re w))"
    by (simp add: e createEvent_def)
  show "anims (show_then_hide ?re w) = [?x]"
    by (simp add: e)
  show "\<not> isOpen (show_then_hide ?re w)"
    by (simp add: e)
  show "step depth (Finish (Suc (nextAnim w))) (show_then_hide ?re w)
          = Some (finish ?re ?x (show_then_hide ?re w))"
    by (simp add: e)
  show "\<not> isOpen (finish ?re ?x (show_then_hide ?re w))"
    using q by (cases "activeElement w")
      (simp_all add: e finish_def run_conts_hidden_nil focus_el_eq)
  show "isClosed (finish ?re ?x (show_then_hide ?re w))"
    using q by (cases "activeElement w")
      (simp_all add: e finish_def run_conts_hidden_nil focus_el_eq)
  show "anims (finish ?re ?x (show_then_hide ?re w)) = []"
    using q by (cases "activeElement w")
      (simp_all add: e finish_def run_conts_hidden_nil focus_el_eq)
  show "trace (finish ?re ?x (show_then_hide ?re w))
          = Dispatched \<lparr>ev_type = ''hidden'', bubbles = True, cancelable = True\<rparr>
            # AnimFinished (Suc (nextAnim w)) # trace (show_then_hide ?re w)"
    using q by (cases "activeElement w")
      (simp_all add: e finish_def run_conts_hidden_nil focus_el_eq createEvent_def)
qed

text \<open>The theorem at a modal that has been opened and closed once before.\<close>

theorem rapid_show_hide_witness:
  "reachable quiet_input closed_again \<and> length (anims closed_again) \<le> 1
   \<and> list_all (\<lambda>x. \<not> is_unhandled x) (trace closed_again)
   \<and> \<not> isOpen closed_again \<and> quiet closed_again
   \<and> anims (snd (show_modal (reenter 0) closed_again))
       = [\<lparr>anim_id = 2, anim_kind = Entrance, duration = 300\<rparr>]
   \<and> anims (show_then_hide (reenter 0) closed_again)
       = [\<lparr>anim_id = 3, anim_kind = Exit, duration = 300\<rparr>]
   \<and> trace (show_then_hide (reenter 0) closed_again)
       = AnimStarted Exit 3
         # Dispatched \<lparr>ev_type = ''hide'', bubbles = True, cancelable = True\<rparr>
         # AnimCanceled 2 # trace (snd (show_modal (reenter 0) closed_again))
   \<and> (\<exists>w. step 0 (Finish 3) (show_then_hide (reenter 0) closed_again) = Some w \<and> isClosed w
          \<and> \<not> isOpen w \<and> anims w = [])"
proof -
  have r: "reachable quiet_input closed_again"
    by (rule reachable_steady_quiet [OF reachable_closed_again])
  have o: "\<not> isOpen closed_again" "quiet closed_again" "rendered closed_again"
    "valid_duration (animMsec closed_again)" "msec_of (animMsec closed_again) \<noteq> 0"
    by (simp_all add: closed_again_eq quiet_def valid_duration_def msec_of_def)
  have v: "nextAnim closed_again = 2" "msec_of (animMsec closed_again) = 300"
    by (simp_all add: closed_again_eq msec_of_def)
  from rapid_show_hide [of closed_again 0] r o v
  show ?thesis by (simp del: step.simps add: numeral_3_eq_3 numeral_2_eq_2)
qed

subsection \<open>C9: hide while closing\<close>

text \<open>
  Claim C9. While the modal is closing, with both flags false, \<open>hide\<close> returns false
  and changes nothing: the animations and the trace are what they were.
\<close>

theorem hide_while_closing:
  "\<not> isOpen w \<and> \<not> isClosed w \<Longrightarrow>
     hide re w = (Inr False, w) \<and> anims (snd (hide re w)) = anims w
     \<and> unlisted (snd (hide re w)) = unlisted w \<and> trace (snd (hide re w)) = trace w"
  by (simp add: hide_refused)

text \<open>The theorem at the state after \<open>show\<close> and \<open>hide\<close> on a rendered modal.\<close>

theorem hide_while_closing_witness:
  "\<not> isOpen closing_state \<and> \<not> isClosed closing_state
   \<and> hide (reenter 0) closing_state = (Inr False, closing_state)
   \<and> anims (snd (hide (reenter 0) closing_state))
       = [\<lparr>anim_id = 1, anim_kind = Exit, duration = 300\<rparr>]"
proof -
  have c: "\<not> isOpen closing_state \<and> \<not> isClosed closing_state"
    by (simp add: closing_state_eq)
  have a: "anims closing_state = [\<lparr>anim_id = 1, anim_kind = Exit, duration = 300\<rparr>]"
    by (simp add: closing_state_eq)
  from hide_while_closing [OF c, of "reenter 0"] c a show ?thesis by simp
qed

subsection \<open>C10: a cancelled entrance animation\<close>



end
